theory Spec2Isabelle
  imports Complex_Main
begin

section \<open>Common values\<close>

text \<open>
  Python exceptions are values. The payload is the message text; the messages of the
  libraries are abbreviated.
\<close>

datatype exn =
    ValueError string
  | TypeError string
  | KeyError string
  | UnicodeDecodeError string
  | InvalidIndexError string
  | UnboundLocalError string
  | ReError string
  | LibraryError string

definition exn_message :: "exn \<Rightarrow> string" where
  "exn_message e =
     (case e of ValueError m \<Rightarrow> m | TypeError m \<Rightarrow> m | KeyError m \<Rightarrow> m
      | UnicodeDecodeError m \<Rightarrow> m | InvalidIndexError m \<Rightarrow> m
      | UnboundLocalError m \<Rightarrow> m | ReError m \<Rightarrow> m | LibraryError m \<Rightarrow> m)"

text \<open>\<open>'...'\<close> around a name inside a message, and \<open>str(None)\<close>.\<close>

definition quoted :: "string \<Rightarrow> string" where
  "quoted s = CHR 0x27 # s @ [CHR 0x27]"

definition str_opt :: "string option \<Rightarrow> string" where
  "str_opt v = (case v of None \<Rightarrow> ''None'' | Some s \<Rightarrow> s)"

text \<open>Python truthiness of an optional string: \<open>None\<close> and \<open>''\<close> are false.\<close>

definition truthy :: "string option \<Rightarrow> bool" where
  "truthy v = (case v of None \<Rightarrow> False | Some s \<Rightarrow> s \<noteq> [])"

text \<open>\<open>str(n)\<close> for a natural number: its decimal digits.\<close>

fun digits_of :: "nat \<Rightarrow> string" where
  "digits_of n =
     (if n < 10 then [char_of (48 + n)] else digits_of (n div 10) @ [char_of (48 + n mod 10)])"

text \<open>\<open>s.split(d)\<close> for a one-character separator, and \<open>s.strip()\<close> on ASCII text.\<close>

fun split_on :: "char \<Rightarrow> string \<Rightarrow> string list" where
  "split_on d [] = [[]]"
| "split_on d (c # cs) =
     (if c = d then [] # split_on d cs
      else (case split_on d cs of [] \<Rightarrow> [[c]] | w # ws \<Rightarrow> (c # w) # ws))"

definition is_space :: "char \<Rightarrow> bool" where
  "is_space c = (let n = (of_char c :: nat) in (9 \<le> n \<and> n \<le> 13) \<or> (28 \<le> n \<and> n \<le> 32))"

definition strip :: "string \<Rightarrow> string" where
  "strip s = rev (dropWhile is_space (rev (dropWhile is_space s)))"

text \<open>
  \<open>s.isdigit()\<close> on ASCII text, and the number a string of decimal digits with at most
  one point denotes: what \<open>float\<close> returns for it.
\<close>

definition is_digit :: "char \<Rightarrow> bool" where
  "is_digit c = (let n = (of_char c :: nat) in 48 \<le> n \<and> n \<le> 57)"

definition isdigit :: "string \<Rightarrow> bool" where
  "isdigit s = (s \<noteq> [] \<and> list_all is_digit s)"

definition digits_value :: "string \<Rightarrow> nat" where
  "digits_value s = foldl (\<lambda>a c. 10 * a + (of_char c - 48)) 0 s"

definition decimal_value :: "string \<Rightarrow> real" where
  "decimal_value s =
     (let whole = takeWhile (\<lambda>c. c \<noteq> CHR ''.'') s;
          frac = drop 1 (dropWhile (\<lambda>c. c \<noteq> CHR ''.'') s)
      in of_nat (digits_value whole) + of_nat (digits_value frac) / 10 ^ length frac)"

text \<open>\<open>s.replace(old, '', 1)\<close> for a one-character \<open>old\<close>: the first occurrence is removed.\<close>

definition remove_first :: "char \<Rightarrow> string \<Rightarrow> string" where
  "remove_first c s = remove1 c s"

text \<open>\<open>sep.join(xs)\<close>.\<close>

fun join :: "string \<Rightarrow> string list \<Rightarrow> string" where
  "join sep [] = []"
| "join sep [x] = x"
| "join sep (x # y # ys) = x @ sep @ join sep (y # ys)"

text \<open>\<open>str.lower()\<close>, \<open>str.upper()\<close> on ASCII text.\<close>

definition lower_char :: "char \<Rightarrow> char" where
  "lower_char c = (let n = (of_char c :: nat) in if 65 \<le> n \<and> n \<le> 90 then char_of (n + 32) else c)"

definition upper_char :: "char \<Rightarrow> char" where
  "upper_char c = (let n = (of_char c :: nat) in if 97 \<le> n \<and> n \<le> 122 then char_of (n - 32) else c)"

definition lower :: "string \<Rightarrow> string" where
  "lower s = map lower_char s"

definition upper :: "string \<Rightarrow> string" where
  "upper s = map upper_char s"

section \<open>Tables\<close>

text \<open>
  A cell of a data frame. Numbers are exact reals: the rounding, the infinities and the
  signed zero of float64 are outside the model. \<open>NaN\<close> is the missing-marker.
  \<open>Interval lo hi right\<close> is a bin of \<open>pd.cut\<close>, closed on the right when \<open>right\<close>.
\<close>

datatype cell = Num real | Text string | Bool bool | Interval real real bool | NaN

text \<open>
  A data frame: the length of its index and its columns in order, each a name and the
  cells of that column.
\<close>

record table =
  nrows :: nat
  cols :: "(string \<times> cell list) list"

definition columns :: "table \<Rightarrow> string list" where
  "columns t = map fst (cols t)"

definition wf_table :: "table \<Rightarrow> bool" where
  "wf_table t = (distinct (columns t) \<and> list_all (\<lambda>c. length (snd c) = nrows t) (cols t))"


text \<open>\<open>df[c]\<close> for a column that exists (the callers test \<open>c in df.columns\<close> first).\<close>

definition get_col :: "table \<Rightarrow> string \<Rightarrow> cell list" where
  "get_col t c = (case map_of (cols t) c of Some vs \<Rightarrow> vs | None \<Rightarrow> [])"

text \<open>\<open>df[c] = vs\<close>: replaces the column in place, or appends a new last column.\<close>

definition set_col :: "table \<Rightarrow> string \<Rightarrow> cell list \<Rightarrow> table" where
  "set_col t c vs =
     (if c \<in> set (columns t)
      then t\<lparr>cols := map (\<lambda>(n, old). if n = c then (n, vs) else (n, old)) (cols t)\<rparr>
      else t\<lparr>cols := cols t @ [(c, vs)]\<rparr>)"

text \<open>\<open>c in df.columns\<close> for a parameter that may be \<open>None\<close>.\<close>

definition in_columns :: "string option \<Rightarrow> table \<Rightarrow> bool" where
  "in_columns c t = (case c of None \<Rightarrow> False | Some n \<Rightarrow> n \<in> set (columns t))"

section \<open>The store of data frames\<close>

text \<open>
  Data frames are mutable objects. The store is the list of all frames allocated so
  far and a reference is a position in it. \<open>df.copy()\<close> allocates a frame with the same
  content; \<open>df[c] = vs\<close> updates the frame the reference points to.
\<close>

type_synonym ref = nat
type_synonym heap = "table list"

definition df_copy :: "heap \<Rightarrow> ref \<Rightarrow> heap \<times> ref" where
  "df_copy h r = (h @ [h ! r], length h)"

definition alloc :: "heap \<Rightarrow> table \<Rightarrow> heap \<times> ref" where
  "alloc h t = (h @ [t], length h)"

definition frame_set_col :: "heap \<Rightarrow> ref \<Rightarrow> string \<Rightarrow> cell list \<Rightarrow> heap" where
  "frame_set_col h r c vs = h[r := set_col (h ! r) c vs]"

text \<open>An update of the frame a reference points to, in place.\<close>

definition frame_update :: "heap \<Rightarrow> ref \<Rightarrow> (table \<Rightarrow> table) \<Rightarrow> heap" where
  "frame_update h r f = h[r := f (h ! r)]"

text \<open>
  What a call that received the store \<open>h\<close> may leave behind, for the frames of its caller
  to be untouched: every frame of \<open>h\<close> is still the same frame, and a reference returned
  points to a frame allocated during the call.
\<close>

definition preserves_store :: "heap \<Rightarrow> heap \<times> (exn + ref) \<Rightarrow> bool" where
  "preserves_store h out =
     (take (length h) (fst out) = h \<and>
      (case snd out of Inl e \<Rightarrow> True | Inr r \<Rightarrow> length h \<le> r \<and> r < length (fst out)))"

section \<open>Library functions\<close>

text \<open>
  Functions of the Python runtime, numpy and pandas that the repository calls and that
  are not part of it. Every definition below that depends on one takes the record as
  its first argument, and every theorem holds for all of them.
  \<^item> \<open>py_float s\<close> is \<open>float(s)\<close>; \<open>None\<close> when it raises \<open>ValueError\<close>. It is also how
    \<open>pd.to_numeric(errors='coerce')\<close> reads a text cell.
  \<^item> \<open>np_power\<close> is \<open>**\<close> on float64 values, where \<open>None\<close> is NaN.
  \<^item> \<open>pd_cut_count xs n labels right\<close> is \<open>pd.cut(xs, bins=n, labels=labels,
    include_lowest=True, right=right)\<close> for a bin count, and \<open>pd_qcut xs q labels\<close> is
    \<open>pd.qcut(xs, q=q, labels=labels, duplicates='drop')\<close>.
\<close>

record library =
  py_float :: "string \<Rightarrow> real option"
  np_power :: "real option \<Rightarrow> real option \<Rightarrow> real option"
  pd_cut_count :: "real option list \<Rightarrow> int \<Rightarrow> string list option \<Rightarrow> bool \<Rightarrow> exn + cell list"
  pd_qcut :: "real option list \<Rightarrow> int \<Rightarrow> string list option \<Rightarrow> exn + cell list"

text \<open>
  \<open>pd.to_numeric(series, errors='coerce')\<close>, cell by cell: what does not read as a number
  becomes NaN.
\<close>

definition to_numeric_cell :: "library \<Rightarrow> cell \<Rightarrow> real option" where
  "to_numeric_cell L c =
     (case c of
        Num x \<Rightarrow> Some x
      | Text s \<Rightarrow> py_float L s
      | Bool b \<Rightarrow> Some (if b then 1 else 0)
      | Interval lo hi r \<Rightarrow> None
      | NaN \<Rightarrow> None)"

definition pd_to_numeric :: "library \<Rightarrow> cell list \<Rightarrow> real option list" where
  "pd_to_numeric L vs = map (to_numeric_cell L) vs"

definition float_cell :: "real option \<Rightarrow> cell" where
  "float_cell v = (case v of None \<Rightarrow> NaN | Some x \<Rightarrow> Num x)"

section \<open>Tabular Reader: delimiter detection (\<open>src/utils/file_handlers.py\<close>, \<open>read_file\<close>)\<close>

text \<open>
  \<open>potential_delimiters = [',', ';', '\t', '|']\<close>. The tab is character 9.
\<close>

definition potential_delimiters :: "char list" where
  "potential_delimiters = [CHR '','', CHR '';'', CHR 0x09, CHR ''|'']"

text \<open>
  \<open>sample.count(d)\<close> for a one-character \<open>d\<close>: the number of positions of the
  sample holding \<open>d\<close>.
\<close>

definition delimiter_count :: "string \<Rightarrow> char \<Rightarrow> nat" where
  "delimiter_count sample d = count_list sample d"

text \<open>
  \<open>max(delimiter_counts, key=delimiter_counts.get)\<close>: Python's \<open>max\<close> walks the keys
  of the dict in insertion order and replaces the candidate only by a strictly larger
  key value, so the first of several maximal keys wins.
\<close>

fun py_max_from :: "('a \<Rightarrow> nat) \<Rightarrow> 'a \<Rightarrow> 'a list \<Rightarrow> 'a" where
  "py_max_from key best [] = best"
| "py_max_from key best (x # xs) =
     (if key best < key x then py_max_from key x xs else py_max_from key best xs)"

definition likely_delimiter :: "string \<Rightarrow> char" where
  "likely_delimiter sample =
     py_max_from (delimiter_count sample) (hd potential_delimiters) (tl potential_delimiters)"





section \<open>Math Operation Transformer (\<open>numeric_transformer.py\<close>)\<close>

text \<open>
  The parameters as \<open>transform\<close> reads them with \<open>params.get\<close>, defaults applied. A
  column name is \<open>None\<close> when the key is absent.
\<close>

record math_params =
  mp_operation :: string
  mp_column1 :: "string option"
  mp_operator :: string
  mp_column2 :: "string option"
  mp_value :: real
  mp_use_value :: bool
  mp_function :: string
  mp_aggregate_columns :: string
  mp_aggregate_function :: string
  mp_target_column :: "string option"

text \<open>
  \<open>operand2\<close> is either the number \<open>value\<close> or the second column as a numeric series;
  \<open>isinstance(operand2, pd.Series)\<close> tells them apart.
\<close>

datatype operand = Literal real | Series "real option list"

definition lift2 :: "(real \<Rightarrow> real \<Rightarrow> real) \<Rightarrow> real option \<Rightarrow> real option \<Rightarrow> real option" where
  "lift2 f a b = (case a of None \<Rightarrow> None | Some x \<Rightarrow> (case b of None \<Rightarrow> None | Some y \<Rightarrow> Some (f x y)))"

text \<open>\<open>col1_data op operand2\<close>, element by element; a number is broadcast to every row.\<close>

definition series_op ::
  "(real option \<Rightarrow> real option \<Rightarrow> real option) \<Rightarrow> real option list \<Rightarrow> operand \<Rightarrow> real option list" where
  "series_op f col1 operand2 =
     (case operand2 of
        Literal v \<Rightarrow> map (\<lambda>a. f a (Some v)) col1
      | Series s \<Rightarrow> map2 f col1 s)"

text \<open>\<open>operand2.replace(0, np.nan)\<close>.\<close>

definition replace_zero :: "real option list \<Rightarrow> real option list" where
  "replace_zero s = map (\<lambda>v. if v = Some 0 then None else v) s"

text \<open>The remainder of floats in numpy: it has the sign of the divisor.\<close>

definition float_mod :: "real \<Rightarrow> real \<Rightarrow> real" where
  "float_mod a b = a - b * of_int \<lfloor>a / b\<rfloor>"

text \<open>
  The chain \<open>if operator == '+': ... elif operator == '**': ...\<close>. The value is the series
  assigned to the target column, or \<open>None\<close> when no branch matches the operator and
  nothing is assigned.
\<close>

definition basic_operation ::
  "library \<Rightarrow> string \<Rightarrow> real option list \<Rightarrow> operand \<Rightarrow> exn + real option list option" where
  "basic_operation L opr col1 operand2 =
     (if opr = ''+'' then Inr (Some (series_op (lift2 (+)) col1 operand2))
      else if opr = ''-'' then Inr (Some (series_op (lift2 (-)) col1 operand2))
      else if opr = ''*'' then Inr (Some (series_op (lift2 (*)) col1 operand2))
      else if opr = ''/'' then
        (case operand2 of
           Series s \<Rightarrow> Inr (Some (series_op (lift2 (/)) col1 (Series (replace_zero s))))
         | Literal v \<Rightarrow>
             if v = 0 then Inl (ValueError ''Cannot divide by zero'')
             else Inr (Some (series_op (lift2 (/)) col1 operand2)))
      else if opr = ''%'' then
        (case operand2 of
           Series s \<Rightarrow> Inr (Some (series_op (lift2 float_mod) col1 (Series (replace_zero s))))
         | Literal v \<Rightarrow>
             if v = 0 then Inl (ValueError ''Cannot take modulo by zero'')
             else Inr (Some (series_op (lift2 float_mod) col1 operand2)))
      else if opr = ''**'' then Inr (Some (series_op (np_power L) col1 operand2))
      else Inr None)"

text \<open>
  The math functions, on exact reals. \<open>np.finfo(float).eps\<close> is \<open>2 ^ -52\<close>; \<open>clip\<close>
  leaves NaN alone; \<open>np.round\<close> rounds a half to the even neighbour.
\<close>

definition float_eps :: real where
  "float_eps = 1 / 2 ^ 52"

definition round_half_even :: "real \<Rightarrow> real" where
  "round_half_even x =
     (let f = \<lfloor>x\<rfloor>; d = x - of_int f in
      if d < 1 / 2 then of_int f
      else if 1 / 2 < d then of_int (f + 1)
      else if even f then of_int f else of_int (f + 1))"

definition math_function :: "string \<Rightarrow> real option list \<Rightarrow> real option list option" where
  "math_function fn col1 =
     (if fn = ''log'' then Some (map (map_option (\<lambda>x. ln (max x float_eps))) col1)
      else if fn = ''log10'' then Some (map (map_option (\<lambda>x. log 10 (max x float_eps))) col1)
      else if fn = ''sqrt'' then Some (map (map_option (\<lambda>x. sqrt (max x 0))) col1)
      else if fn = ''abs'' then Some (map (map_option abs) col1)
      else if fn = ''exp'' then Some (map (map_option exp) col1)
      else if fn = ''sin'' then Some (map (map_option sin) col1)
      else if fn = ''cos'' then Some (map (map_option cos) col1)
      else if fn = ''tan'' then Some (map (map_option tan) col1)
      else if fn = ''round'' then Some (map (map_option round_half_even) col1)
      else if fn = ''floor'' then Some (map (map_option (\<lambda>x. of_int \<lfloor>x\<rfloor>)) col1)
      else if fn = ''ceil'' then Some (map (map_option (\<lambda>x. of_int \<lceil>x\<rceil>)) col1)
      else None)"

text \<open>
  The row-wise aggregates \<open>numeric_df.sum(axis=1)\<close> and its siblings. NaN is skipped;
  \<open>xs\<close> are the numbers of one row. \<open>std\<close> and \<open>var\<close> divide by \<open>n - 1\<close>.
\<close>

definition mean_of :: "real list \<Rightarrow> real option" where
  "mean_of xs = (if xs = [] then None else Some (sum_list xs / of_nat (length xs)))"

definition median_of :: "real list \<Rightarrow> real option" where
  "median_of xs =
     (let ys = sort xs; n = length ys in
      if n = 0 then None
      else if odd n then Some (ys ! (n div 2))
      else Some ((ys ! (n div 2 - 1) + ys ! (n div 2)) / 2))"

definition var_of :: "real list \<Rightarrow> real option" where
  "var_of xs =
     (if length xs < 2 then None
      else (let m = sum_list xs / of_nat (length xs) in
            Some (sum_list (map (\<lambda>x. (x - m) ^ 2) xs) / of_nat (length xs - 1))))"

definition aggregate_row :: "string \<Rightarrow> real list \<Rightarrow> real option option" where
  "aggregate_row fn xs =
     (if fn = ''sum'' then Some (Some (sum_list xs))
      else if fn = ''mean'' then Some (mean_of xs)
      else if fn = ''min'' then Some (if xs = [] then None else Some (Min (set xs)))
      else if fn = ''max'' then Some (if xs = [] then None else Some (Max (set xs)))
      else if fn = ''median'' then Some (median_of xs)
      else if fn = ''std'' then Some (map_option sqrt (var_of xs))
      else if fn = ''var'' then Some (var_of xs)
      else if fn = ''prod'' then Some (Some (prod_list xs))
      else None)"

definition known_aggregate :: "string \<Rightarrow> bool" where
  "known_aggregate fn = (fn \<in> set [''sum'', ''mean'', ''min'', ''max'', ''median'', ''std'', ''var'', ''prod''])"

text \<open>The numbers of row \<open>i\<close> across the selected columns, NaN dropped.\<close>

definition row_numbers :: "real option list list \<Rightarrow> nat \<Rightarrow> real list" where
  "row_numbers ss i = concat (map (\<lambda>s. case s ! i of None \<Rightarrow> [] | Some x \<Rightarrow> [x]) ss)"

text \<open>
  The \<open>aggregate\<close> branch: the column list is parsed, \<open>column1\<close> is put in front when it
  is not listed, missing columns raise.
\<close>

definition aggregate_operation ::
  "library \<Rightarrow> table \<Rightarrow> string \<Rightarrow> math_params \<Rightarrow> exn + real option list option" where
  "aggregate_operation L t column1 p =
     (if mp_aggregate_columns p = [] then Inl (ValueError ''Columns to aggregate must be specified'')
      else
        (let listed = map strip (split_on (CHR '','') (mp_aggregate_columns p));
             agg_columns = (if column1 \<notin> set listed then column1 # listed else listed);
             missing_columns = filter (\<lambda>c. c \<notin> set (columns t)) agg_columns
         in if missing_columns \<noteq> [] then Inl (ValueError (''Columns not found: '' @ join '', '' missing_columns))
            else
              (let numeric_df = map (\<lambda>c. pd_to_numeric L (get_col t c)) agg_columns in
               if known_aggregate (mp_aggregate_function p)
               then Inr (Some (map (\<lambda>i. the (aggregate_row (mp_aggregate_function p) (row_numbers numeric_df i)))
                                  [0 ..< nrows t]))
               else Inr None)))"

text \<open>
  The body of the \<open>try\<close> block: the series assigned to the target column (\<open>None\<close>: no
  assignment), or the exception raised inside the block.
\<close>

definition math_try_block ::
  "library \<Rightarrow> table \<Rightarrow> string \<Rightarrow> real option list \<Rightarrow> math_params \<Rightarrow> exn + real option list option" where
  "math_try_block L t column1 col1_data p =
     (if mp_operation p = ''basic'' then
        (if mp_use_value p \<or> \<not> truthy (mp_column2 p)
         then basic_operation L (mp_operator p) col1_data (Literal (mp_value p))
         else if \<not> in_columns (mp_column2 p) t
         then Inl (ValueError (''Column '' @ quoted (str_opt (mp_column2 p)) @ '' not found in dataframe''))
         else basic_operation L (mp_operator p) col1_data
                (Series (pd_to_numeric L (get_col t (the (mp_column2 p))))))
      else if mp_operation p = ''function'' then Inr (math_function (mp_function p) col1_data)
      else if mp_operation p = ''aggregate'' then aggregate_operation L t column1 p
      else Inr None)"

text \<open>
  \<open>MathOperationTransformer.transform\<close>. The result is the store after the call and
  either the exception raised or the reference returned.
\<close>

definition math_transform :: "library \<Rightarrow> heap \<Rightarrow> ref \<Rightarrow> math_params \<Rightarrow> heap \<times> (exn + ref)" where
  "math_transform L h0 df p =
     (let (h, result) = df_copy h0 df in
      if \<not> in_columns (mp_column1 p) (h ! result)
      then (h, Inl (ValueError (''Column '' @ quoted (str_opt (mp_column1 p)) @ '' not found in dataframe'')))
      else if \<not> truthy (mp_target_column p)
      then (h, Inl (ValueError ''Target column name cannot be empty''))
      else
        (let col1_data = pd_to_numeric L (get_col (h ! result) (the (mp_column1 p))) in
         case math_try_block L (h ! result) (the (mp_column1 p)) col1_data p of
           Inl e \<Rightarrow> (h, Inl (ValueError (''Error performing math operation: '' @ exn_message e)))
         | Inr None \<Rightarrow> (h, Inr result)
         | Inr (Some s) \<Rightarrow>
             (frame_set_col h result (the (mp_target_column p)) (map float_cell s), Inr result)))"

section \<open>Numeric Binning Transformer (\<open>numeric_transformer.py\<close>)\<close>

record binning_params =
  bp_column :: "string option"
  bp_method :: string
  bp_num_bins :: int
  bp_custom_bins :: string
  bp_labels :: string
  bp_target_column :: "string option"
  bp_include_right :: bool

text \<open>
  \<open>pd.cut(x, bins=edges, labels=labels, include_lowest=True, right=right)\<close> for a list
  of edges, after pandas' \<open>cut\<close> and \<open>_bins_to_cuts\<close>. The edges must not decrease, and
  must be pairwise different unless there are exactly two of them; labels must be as many
  as bins and pairwise different. The categories are the labels, or else the intervals
  between consecutive edges (pandas prints their endpoints rounded, and the first left
  endpoint lowered, which the model leaves out). A value falls into bin
  \<open>searchsorted(edges, x) - 1\<close>; the lowest edge belongs to the first bin; what falls
  outside every bin, and NaN, becomes NaN.
\<close>

definition cut_categories :: "real list \<Rightarrow> string list option \<Rightarrow> bool \<Rightarrow> cell list" where
  "cut_categories edges labels right =
     (case labels of
        Some ls \<Rightarrow> map Text ls
      | None \<Rightarrow> map (\<lambda>i. Interval (edges ! i) (edges ! Suc i) right) [0 ..< length edges - 1])"

definition searchsorted :: "real list \<Rightarrow> real \<Rightarrow> bool \<Rightarrow> nat" where
  "searchsorted edges x right =
     (if right then length (filter (\<lambda>b. b < x) edges) else length (filter (\<lambda>b. b \<le> x) edges))"

definition cut_value :: "real list \<Rightarrow> cell list \<Rightarrow> bool \<Rightarrow> real option \<Rightarrow> cell" where
  "cut_value edges cats right v =
     (case v of
        None \<Rightarrow> NaN
      | Some x \<Rightarrow>
          (let ids = (if x = edges ! 0 then 1 else searchsorted edges x right) in
           if ids = length edges \<or> ids = 0 then NaN else cats ! (ids - 1)))"

definition pd_cut_edges ::
  "real option list \<Rightarrow> real list \<Rightarrow> string list option \<Rightarrow> bool \<Rightarrow> exn + cell list \<times> cell list" where
  "pd_cut_edges xs edges labels right =
     (if \<not> sorted edges then Inl (ValueError ''bins must increase monotonically.'')
      else if \<not> distinct edges \<and> length edges \<noteq> 2 then Inl (ValueError ''Bin edges must be unique'')
      else if (case labels of None \<Rightarrow> False | Some ls \<Rightarrow> \<not> distinct ls)
      then Inl (ValueError ''labels must be unique if ordered=True; pass ordered=False for duplicate labels'')
      else if (case labels of None \<Rightarrow> False | Some ls \<Rightarrow> length ls \<noteq> length edges - 1)
      then Inl (ValueError ''Bin labels must be one fewer than the number of bin edges'')
      else (let cats = cut_categories edges labels right in
            Inr (cats, map (cut_value edges cats right) xs)))"

text \<open>
  \<open>[float(edge.strip()) for edge in custom_bins_str.split(',')]\<close>; \<open>None\<close> when some
  \<open>float\<close> raises.
\<close>

definition parse_bin_edges :: "library \<Rightarrow> string \<Rightarrow> real list option" where
  "parse_bin_edges L custom_bins_str =
     (let parsed = map (\<lambda>edge. py_float L (strip edge)) (split_on (CHR '','') custom_bins_str) in
      if None \<in> set parsed then None else Some (map the parsed))"

text \<open>
  \<open>labels\<close> as the transformer parses them: \<open>None\<close> for an empty \<open>labels\<close> parameter.
\<close>

definition parse_labels :: "string \<Rightarrow> string list option" where
  "parse_labels labels_str =
     (if labels_str \<noteq> [] then Some (map strip (split_on (CHR '','') labels_str)) else None)"

text \<open>
  The body of the \<open>try\<close> block: the categories and the cells assigned to the target
  column (\<open>None\<close>: the method matches no branch and nothing is assigned), or the
  exception raised inside the block. For the two library binnings the categories are
  not part of the model.
\<close>

definition binning_try_block ::
  "library \<Rightarrow> real option list \<Rightarrow> string list option \<Rightarrow> binning_params \<Rightarrow>
     exn + (cell list \<times> cell list) option" where
  "binning_try_block L numeric_data labels p =
     (if bp_method p = ''custom'' then
        (if bp_custom_bins p = [] then Inl (ValueError ''Custom bin edges must be provided'')
         else
           (case parse_bin_edges L (bp_custom_bins p) of
              None \<Rightarrow> Inl (ValueError ''Invalid bin edges format. Use comma-separated numbers.'')
            | Some bin_edges \<Rightarrow>
                if length bin_edges < 2 then Inl (ValueError ''At least 2 bin edges are required'')
                else if labels \<noteq> None \<and> labels \<noteq> Some [] \<and> length (the labels) \<noteq> length bin_edges - 1
                then Inl (ValueError (''Number of labels ('' @ digits_of (length (the labels))
                        @ '') must be one less than bin edges ('' @ digits_of (length bin_edges) @ '')''))
                else map_sum id Some (pd_cut_edges numeric_data bin_edges labels (bp_include_right p))))
      else if bp_method p = ''equal_width'' then
        (if bp_num_bins p < 2 then Inl (ValueError ''Number of bins must be at least 2'')
         else if labels \<noteq> None \<and> labels \<noteq> Some [] \<and> int (length (the labels)) \<noteq> bp_num_bins p
         then Inl (ValueError (''Number of labels ('' @ digits_of (length (the labels))
                 @ '') must match number of bins ('' @ digits_of (nat (bp_num_bins p)) @ '')''))
         else map_sum id (\<lambda>vs. Some ([], vs))
                (pd_cut_count L numeric_data (bp_num_bins p) labels (bp_include_right p)))
      else if bp_method p = ''equal_freq'' then
        (if bp_num_bins p < 2 then Inl (ValueError ''Number of bins must be at least 2'')
         else if labels \<noteq> None \<and> labels \<noteq> Some [] \<and> int (length (the labels)) \<noteq> bp_num_bins p
         then Inl (ValueError (''Number of labels ('' @ digits_of (length (the labels))
                 @ '') must match number of bins ('' @ digits_of (nat (bp_num_bins p)) @ '')''))
         else map_sum id (\<lambda>vs. Some ([], vs)) (pd_qcut L numeric_data (bp_num_bins p) labels))
      else Inr None)"

text \<open>\<open>BinningTransformer.transform\<close>.\<close>

definition binning_transform :: "library \<Rightarrow> heap \<Rightarrow> ref \<Rightarrow> binning_params \<Rightarrow> heap \<times> (exn + ref)" where
  "binning_transform L h0 df p =
     (let (h, result) = df_copy h0 df in
      if \<not> in_columns (bp_column p) (h ! result)
      then (h, Inl (ValueError (''Column '' @ quoted (str_opt (bp_column p)) @ '' not found in dataframe'')))
      else if \<not> truthy (bp_target_column p)
      then (h, Inl (ValueError ''Target column name cannot be empty''))
      else
        (let numeric_data = pd_to_numeric L (get_col (h ! result) (the (bp_column p)));
             labels = parse_labels (bp_labels p)
         in case binning_try_block L numeric_data labels p of
              Inl e \<Rightarrow> (h, Inl (ValueError (''Error binning data: '' @ exn_message e)))
            | Inr None \<Rightarrow> (h, Inr result)
            | Inr (Some (cats, vs)) \<Rightarrow>
                (frame_set_col h result (the (bp_target_column p)) vs, Inr result)))"

section \<open>Loading a file (\<open>read_file\<close>, \<open>detect_encoding\<close>, \<open>FileMerger.load_data\<close>)\<close>

















text \<open>
  The distinct elements of a list in the order of their first occurrence, added to those
  already seen: the keys of a dict filled in that order, and the union of column indexes.
\<close>

fun union_index :: "'a list \<Rightarrow> 'a list \<Rightarrow> 'a list" where
  "union_index seen [] = seen"
| "union_index seen (c # cs) = union_index (if c \<in> set seen then seen else seen @ [c]) cs"

section \<open>Column Reconciler (\<open>suggest_column_mapping\<close>)\<close>

text \<open>
  Library functions of the merge: \<open>seq_ratio a b\<close> is
  \<open>difflib.SequenceMatcher(None, a, b).ratio()\<close>; \<open>pd_merge left right on how suffix\<close> is
  \<open>pd.merge(left, right, on=on, how=how, suffixes=(None, suffix))\<close>; \<open>set_order xs\<close> is the
  order in which Python iterates over the set of the strings \<open>xs\<close>; \<open>series_mode\<close> is
  \<open>Series.mode()\<close>.
\<close>

record merge_library =
  seq_ratio :: "string \<Rightarrow> string \<Rightarrow> real"
  pd_merge :: "table \<Rightarrow> table \<Rightarrow> string \<Rightarrow> string \<Rightarrow> string \<Rightarrow> exn + table"
  set_order :: "string list \<Rightarrow> string list"
  series_mode :: "cell list \<Rightarrow> cell list"

definition similarity :: "merge_library \<Rightarrow> string \<Rightarrow> string \<Rightarrow> real" where
  "similarity M a b = seq_ratio M (lower a) (lower b)"


text \<open>
  The multi-name case: each source name gets the first target of the highest ratio at or
  above the threshold. The dict is an association list in insertion order.
\<close>

fun best_match :: "merge_library \<Rightarrow> string \<Rightarrow> real \<Rightarrow> string option \<Rightarrow> real \<Rightarrow> string list \<Rightarrow> string option" where
  "best_match M src threshold best best_score [] = best"
| "best_match M src threshold best best_score (tgt # tgts) =
     (if similarity M src tgt > best_score \<and> similarity M src tgt \<ge> threshold
      then best_match M src threshold (Some tgt) (similarity M src tgt) tgts
      else best_match M src threshold best best_score tgts)"

definition suggest_column_mapping_list ::
  "merge_library \<Rightarrow> string list \<Rightarrow> string list \<Rightarrow> real \<Rightarrow> (string \<times> string) list" where
  "suggest_column_mapping_list M source target_columns threshold =
     concat (map (\<lambda>src_col.
        case best_match M src_col threshold None 0 target_columns of
          None \<Rightarrow> []
        | Some m \<Rightarrow> if m = [] then [] else [(src_col, m)]) (union_index [] source))"

section \<open>Cleaning inside \<open>process_files\<close>: filling and duplicates\<close>

record merge_options =
  merge_method :: string
  join_key :: "string option"
  join_type :: string
  matching_columns :: bool
  output_filename :: string
  ignore_case :: bool
  handle_duplicates :: bool
  fill_missing :: bool
  fill_method :: "string option"
  fill_value :: "string option"
  matching_threshold :: "real option"


text \<open>\<open>df.fillna(v)\<close>: every missing cell becomes \<open>v\<close>.\<close>

definition fillna_cells :: "cell \<Rightarrow> cell list \<Rightarrow> cell list" where
  "fillna_cells v vs = map (\<lambda>c. if c = NaN then v else c) vs"

definition map_columns :: "(cell list \<Rightarrow> cell list) \<Rightarrow> table \<Rightarrow> table" where
  "map_columns f t = t\<lparr>cols := map (\<lambda>(n, vs). (n, f vs)) (cols t)\<rparr>"

definition fillna :: "cell \<Rightarrow> table \<Rightarrow> table" where
  "fillna v t = map_columns (fillna_cells v) t"

text \<open>
  A column that \<open>select_dtypes(include=[np.number])\<close> selects: in the model, one whose
  cells are numbers or missing.
\<close>

definition is_numeric_column :: "cell list \<Rightarrow> bool" where
  "is_numeric_column vs = list_all (\<lambda>c. case c of Num x \<Rightarrow> True | NaN \<Rightarrow> True | other \<Rightarrow> False) vs"

definition numbers_of :: "cell list \<Rightarrow> real list" where
  "numbers_of vs = concat (map (\<lambda>c. case c of Num x \<Rightarrow> [x] | other \<Rightarrow> []) vs)"

text \<open>\<open>df[col].fillna(df[col].mean())\<close> and the same with the median, on numeric columns only.\<close>

definition fill_numeric :: "(real list \<Rightarrow> real option) \<Rightarrow> cell list \<Rightarrow> cell list" where
  "fill_numeric stat vs =
     (if is_numeric_column vs then fillna_cells (float_cell (stat (numbers_of vs))) vs else vs)"

text \<open>\<open>df[col].fillna(df[col].mode()[0] if not df[col].mode().empty else np.nan)\<close>.\<close>

definition fill_mode :: "merge_library \<Rightarrow> cell list \<Rightarrow> cell list" where
  "fill_mode M vs = (case series_mode M vs of [] \<Rightarrow> vs | m # ms \<Rightarrow> fillna_cells m vs)"

text \<open>Forward fill: a missing cell takes the last value above it, if there is one.\<close>

fun ffill_from :: "cell \<Rightarrow> cell list \<Rightarrow> cell list" where
  "ffill_from prev [] = []"
| "ffill_from prev (c # cs) = (if c = NaN then prev # ffill_from prev cs else c # ffill_from c cs)"

definition ffill :: "cell list \<Rightarrow> cell list" where
  "ffill vs = ffill_from NaN vs"

definition bfill :: "cell list \<Rightarrow> cell list" where
  "bfill vs = rev (ffill_from NaN (rev vs))"

text \<open>
  The custom value: \<open>float(v) if v.replace(".", "", 1).isdigit() else v\<close>. With
  \<open>fill_value\<close> equal to \<open>None\<close> the attribute access raises, the bare \<open>except\<close> calls
  \<open>df.fillna(None)\<close>, and that raises \<open>ValueError\<close>.
\<close>

definition custom_fill_value :: "string \<Rightarrow> cell" where
  "custom_fill_value v = (if isdigit (remove_first (CHR ''.'') v) then Num (decimal_value v) else Text v)"


text \<open>
  \<open>drop_duplicates\<close>: the rows whose key has not occurred in an earlier row are kept, in
  order. The key of a row is the row itself, or its cell in the subset column.
\<close>

definition row_at :: "table \<Rightarrow> nat \<Rightarrow> cell list" where
  "row_at t i = map (\<lambda>c. snd c ! i) (cols t)"

definition first_occurrences :: "(nat \<Rightarrow> 'k) \<Rightarrow> nat \<Rightarrow> nat list" where
  "first_occurrences key n = filter (\<lambda>i. key i \<notin> set (map key [0 ..< i])) [0 ..< n]"

definition take_rows :: "table \<Rightarrow> nat list \<Rightarrow> table" where
  "take_rows t idx = \<lparr>nrows = length idx, cols = map (\<lambda>(n, vs). (n, map ((!) vs) idx)) (cols t)\<rparr>"

definition drop_duplicates :: "table \<Rightarrow> table" where
  "drop_duplicates t = take_rows t (first_occurrences (row_at t) (nrows t))"

definition drop_duplicates_subset :: "table \<Rightarrow> string \<Rightarrow> table" where
  "drop_duplicates_subset t k = take_rows t (first_occurrences (\<lambda>i. get_col t k ! i) (nrows t))"

text \<open>Messages that \<open>process_files\<close> sends to the page with \<open>st.write\<close> and its siblings.\<close>

datatype ui_event = UiWrite string | UiInfo string | UiWarning string | UiSuccess string | UiSubheader string

definition shape_text :: "table \<Rightarrow> string" where
  "shape_text t = digits_of (nrows t) @ '' rows and '' @ digits_of (length (cols t)) @ '' columns.''"



section \<open>The merge strategies of \<open>process_files\<close>\<close>

text \<open>
  \<open>pd.concat(dfs, ignore_index=True)\<close>, after pandas: the columns of the result are the
  union of the frames' columns in the order in which they are first seen; each frame
  contributes its rows, with NaN in the columns it does not have. An empty list raises.
  Frames with a repeated column name can only be stacked when all frames have the very
  same columns; otherwise pandas cannot reindex them and raises.
\<close>

definition union_columns :: "table list \<Rightarrow> string list" where
  "union_columns ts = union_index [] (concat (map columns ts))"

definition reindex_col :: "table \<Rightarrow> string \<Rightarrow> cell list" where
  "reindex_col t c = (case map_of (cols t) c of Some vs \<Rightarrow> vs | None \<Rightarrow> replicate (nrows t) NaN)"

definition pd_concat :: "table list \<Rightarrow> exn + table" where
  "pd_concat ts =
     (if ts = [] then Inl (ValueError ''No objects to concatenate'')
      else if list_all (\<lambda>t. distinct (columns t)) ts then
        Inr \<lparr>nrows = sum_list (map nrows ts),
             cols = map (\<lambda>c. (c, concat (map (\<lambda>t. reindex_col t c) ts))) (union_columns ts)\<rparr>
      else if list_all (\<lambda>t. columns t = columns (hd ts)) ts then
        Inr \<lparr>nrows = sum_list (map nrows ts),
             cols = map (\<lambda>i. (columns (hd ts) ! i, concat (map (\<lambda>t. snd (cols t ! i)) ts)))
                      [0 ..< length (columns (hd ts))]\<rparr>
      else Inl (InvalidIndexError ''Reindexing only valid with uniquely valued Index objects''))"

text \<open>\<open>df.rename(columns=...)\<close> with a renaming function, and \<open>df.columns = [...]\<close>.\<close>

definition rename_columns :: "(string \<Rightarrow> string) \<Rightarrow> table \<Rightarrow> table" where
  "rename_columns f t = t\<lparr>cols := map (\<lambda>(n, vs). (f n, vs)) (cols t)\<rparr>"

text \<open>
  \<open>rename_dict = {col2: col1 for col1, col2 in mapping.items() if col1 != col2}\<close> as the
  function \<open>rename\<close> applies to a column name: the last entry for a name wins.
\<close>

definition rename_lookup :: "(string \<times> string) list \<Rightarrow> string \<Rightarrow> string" where
  "rename_lookup mapping n =
     (case map_of (rev (map (\<lambda>(col1, col2). (col2, col1)) (filter (\<lambda>(col1, col2). col1 \<noteq> col2) mapping))) n of
        Some col1 \<Rightarrow> col1
      | None \<Rightarrow> n)"

text \<open>
  The column matching of the Join strategy: every frame after the first has its columns
  renamed towards the columns of the first frame.
\<close>

definition match_columns :: "merge_library \<Rightarrow> merge_options \<Rightarrow> table list \<Rightarrow> table list" where
  "match_columns M options dfs =
     (case dfs of
        [] \<Rightarrow> []
      | merged_df # rest \<Rightarrow>
          merged_df #
          map (\<lambda>df. rename_columns
                 (rename_lookup
                    (suggest_column_mapping_list M (columns merged_df) (columns df)
                       (case matching_threshold options of Some th \<Rightarrow> th / 100 | None \<Rightarrow> 8 / 10)))
                 df) rest)"

text \<open>
  \<open>for i, df in enumerate(dfs[1:], 1): merged_df = pd.merge(...)\<close>; the suffix of frame
  \<open>i\<close> is \<open>_i\<close>.
\<close>

fun merge_all :: "merge_library \<Rightarrow> string \<Rightarrow> string \<Rightarrow> table \<Rightarrow> nat \<Rightarrow> table list \<Rightarrow> exn + table" where
  "merge_all M on how merged_df i [] = Inr merged_df"
| "merge_all M on how merged_df i (df # rest) =
     (case pd_merge M merged_df df on how (''_'' @ digits_of i) of
        Inl e \<Rightarrow> Inl e
      | Inr m \<Rightarrow> merge_all M on how m (Suc i) rest)"

text \<open>
  The Smart strategy's key candidates: a common column is a candidate when in every
  frame \<open>df[col].nunique() == len(df[col].dropna())\<close>.
\<close>

definition common_columns :: "table list \<Rightarrow> string list" where
  "common_columns dfs =
     filter (\<lambda>c. list_all (\<lambda>t. c \<in> set (columns t)) dfs) (remdups (columns (hd dfs)))"

definition has_unique_values :: "table \<Rightarrow> string \<Rightarrow> bool" where
  "has_unique_values df col =
     (let present = filter (\<lambda>c. c \<noteq> NaN) (get_col df col) in
      length (remdups present) = length present)"

definition potential_keys :: "merge_library \<Rightarrow> table list \<Rightarrow> string list" where
  "potential_keys M dfs =
     filter (\<lambda>col. list_all (\<lambda>df. has_unique_values df col) dfs) (set_order M (common_columns dfs))"

definition no_common_warning :: string where
  "no_common_warning = ''No common columns found across files. Performing vertical append instead.''"

definition no_key_warning :: string where
  "no_key_warning = ''No suitable key columns found. Performing vertical append instead.''"

text \<open>
  The chain on \<open>options["merge_method"]\<close>: the merged frame or the exception, and the
  messages shown. When no branch matches, \<open>merged_df\<close> is unbound at its first use.
  The expander listing the applied renamings is not modelled.
\<close>

definition merge_frames ::
  "merge_library \<Rightarrow> merge_options \<Rightarrow> table list \<Rightarrow> (exn + table) \<times> ui_event list" where
  "merge_frames M options dfs =
     (if merge_method options = ''Append (stack vertically)'' then
        (case pd_concat dfs of
           Inl e \<Rightarrow> (Inl e, [])
         | Inr merged_df \<Rightarrow>
             (Inr merged_df,
              [UiSuccess (''Successfully merged '' @ digits_of (length dfs)
                 @ '' files vertically. Result has '' @ shape_text merged_df)]))
      else if merge_method options = ''Join on key column (merge horizontally)'' then
        (let ui = (if matching_columns options then [UiInfo ''Applying column name matching...''] else []);
             dfs' = (if matching_columns options then match_columns M options dfs else dfs)
         in case merge_all M (the (join_key options)) (join_type options) (hd dfs') 1 (tl dfs') of
              Inl e \<Rightarrow> (Inl e, ui)
            | Inr merged_df \<Rightarrow>
                (Inr merged_df,
                 ui @ [UiSuccess (''Successfully merged '' @ digits_of (length dfs')
                    @ '' files horizontally on key '' @ quoted (the (join_key options))
                    @ ''. Result has '' @ shape_text merged_df)]))
      else if merge_method options = ''Smart merge (auto-detect)'' then
        (let ui = [UiInfo ''Analyzing files for smart merge...''] in
         if length dfs = 1
         then (Inr (hd dfs), ui @ [UiSuccess ''Only one file provided. No merging needed.''])
         else if common_columns dfs = [] then
           (case pd_concat dfs of
              Inl e \<Rightarrow> (Inl e, ui)
            | Inr merged_df \<Rightarrow> (Inr merged_df, ui @ [UiWarning no_common_warning]))
         else
           (case potential_keys M dfs of
              key_col # others \<Rightarrow>
                (let ui' = ui @ [UiInfo (''Automatically selected '' @ quoted key_col
                                   @ '' as the key column for joining.'')] in
                 case merge_all M key_col ''outer'' (hd dfs) 1 (tl dfs) of
                   Inl e \<Rightarrow> (Inl e, ui')
                 | Inr merged_df \<Rightarrow>
                     (Inr merged_df,
                      ui' @ [UiSuccess (''Successfully merged '' @ digits_of (length dfs)
                         @ '' files using smart join on '' @ quoted key_col
                         @ ''. Result has '' @ shape_text merged_df)]))
            | [] \<Rightarrow>
                (case pd_concat dfs of
                   Inl e \<Rightarrow> (Inl e, ui)
                 | Inr merged_df \<Rightarrow> (Inr merged_df, ui @ [UiWarning no_key_warning]))))
      else (Inl (UnboundLocalError ''merged_df''), []))"

section \<open>\<open>FileMerger.process_files\<close>\<close>










section \<open>The loading loop, file by file\<close>





section \<open>Numeric Scaling Transformer (\<open>numeric_transformer.py\<close>)\<close>

record scaling_params =
  sp_column :: "string option"
  sp_method :: string
  sp_min_value :: real
  sp_max_value :: real
  sp_create_new_column :: bool
  sp_new_column_name :: "string option"

text \<open>The numbers of a numeric series, NaN dropped: what \<open>min\<close>, \<open>max\<close>, \<open>mean\<close>, \<open>std\<close> see.\<close>

definition present :: "real option list \<Rightarrow> real list" where
  "present s = concat (map (\<lambda>v. case v of None \<Rightarrow> [] | Some x \<Rightarrow> [x]) s)"

text \<open>
  The chain on \<open>method\<close> inside the \<open>try\<close> block. A constant series \<open>pd.Series(v, index=...)\<close>
  has \<open>v\<close> in every row. With an unknown method \<open>scaled_data\<close> is unbound at the assignment.
\<close>

definition scale_series :: "scaling_params \<Rightarrow> real option list \<Rightarrow> exn + real option list" where
  "scale_series p numeric_data =
     (let xs = present numeric_data; min_val = Min (set xs); max_val = Max (set xs) in
      if sp_method p = ''min_max'' then
        (if min_val = max_val then Inr (map (\<lambda>v. Some (1 / 2)) numeric_data)
         else Inr (map (map_option (\<lambda>x. (x - min_val) / (max_val - min_val))) numeric_data))
      else if sp_method p = ''z_score'' then
        (case map_option sqrt (var_of xs) of
           None \<Rightarrow> Inr (map (\<lambda>v. None) numeric_data)
         | Some std \<Rightarrow>
             if std = 0 then Inr (map (\<lambda>v. Some 0) numeric_data)
             else Inr (map (map_option (\<lambda>x. (x - sum_list xs / of_nat (length xs)) / std)) numeric_data))
      else if sp_method p = ''max_abs'' then
        (let max_abs = max \<bar>min_val\<bar> \<bar>max_val\<bar> in
         if max_abs = 0 then Inr (map (\<lambda>v. Some 0) numeric_data)
         else Inr (map (map_option (\<lambda>x. x / max_abs)) numeric_data))
      else if sp_method p = ''custom_range'' then
        (if min_val = max_val
         then Inr (map (\<lambda>v. Some ((sp_min_value p + sp_max_value p) / 2)) numeric_data)
         else Inr (map (map_option (\<lambda>x. (x - min_val) / (max_val - min_val)
                                        * (sp_max_value p - sp_min_value p) + sp_min_value p))
                     numeric_data))
      else Inl (UnboundLocalError ''scaled_data''))"

definition auto_column_name :: "string \<Rightarrow> string \<Rightarrow> string" where
  "auto_column_name column method =
     (if method = ''min_max'' then column @ ''_scaled''
      else if method = ''z_score'' then column @ ''_zscore''
      else if method = ''max_abs'' then column @ ''_maxabs''
      else if method = ''custom_range'' then column @ ''_custom''
      else [])"

text \<open>\<open>NumericScalingTransformer.transform\<close>.\<close>

definition scaling_transform :: "library \<Rightarrow> heap \<Rightarrow> ref \<Rightarrow> scaling_params \<Rightarrow> heap \<times> (exn + ref)" where
  "scaling_transform L h0 df p =
     (let (h, result) = df_copy h0 df in
      if \<not> in_columns (sp_column p) (h ! result)
      then (h, Inl (ValueError (''Column '' @ quoted (str_opt (sp_column p)) @ '' not found in dataframe'')))
      else
        (let column = the (sp_column p);
             numeric_data = pd_to_numeric L (get_col (h ! result) column)
         in if list_all (\<lambda>v. v = None) numeric_data
            then (h, Inl (ValueError (''Column '' @ quoted column @ '' does not contain valid numeric data'')))
            else
              (let new_column_name =
                     (if sp_create_new_column p \<and> \<not> truthy (sp_new_column_name p)
                      then auto_column_name column (sp_method p)
                      else str_opt (sp_new_column_name p));
                   target_column = (if sp_create_new_column p then new_column_name else column)
               in case scale_series p numeric_data of
                    Inl e \<Rightarrow> (h, Inl (ValueError (''Error scaling numeric data: '' @ exn_message e)))
                  | Inr scaled_data \<Rightarrow>
                      (frame_set_col h result target_column (map float_cell scaled_data), Inr result))))"

section \<open>Text transformers (\<open>text_transformer.py\<close>)\<close>

text \<open>
  Library functions of the text and date transformers: \<open>astype_str c\<close> is \<open>str(c)\<close> for a
  cell; \<open>re_compile\<close> is the error of \<open>re.compile(pattern)\<close>, if any; \<open>re_search pattern s\<close>
  is the text of the first match; \<open>str_replace\<close> is \<open>Series.str.replace(pattern,
  replacement, regex=True, flags=...)\<close>; \<open>to_datetime\<close> is \<open>pd.to_datetime(series,
  format=..., errors='coerce')\<close>, a timestamp being its seconds since the epoch and
  \<open>None\<close> being NaT; \<open>dt_strftime\<close> and \<open>dt_accessor\<close> are \<open>series.dt.strftime(format)\<close>
  and the attribute of \<open>series.dt\<close> of the given name.
\<close>

record transform_library =
  astype_str :: "cell \<Rightarrow> string"
  re_compile :: "string \<Rightarrow> exn option"
  re_search :: "string \<Rightarrow> string \<Rightarrow> string option"
  str_replace :: "string \<Rightarrow> string \<Rightarrow> bool \<Rightarrow> string list \<Rightarrow> exn + string list"
  to_datetime :: "string option \<Rightarrow> cell list \<Rightarrow> exn + real option list"
  dt_strftime :: "string option \<Rightarrow> real option list \<Rightarrow> exn + string option list"
  dt_accessor :: "string \<Rightarrow> real option list \<Rightarrow> exn + cell list"

text \<open>\<open>str.title()\<close> and \<open>str.capitalize()\<close> on ASCII text.\<close>

definition is_alpha :: "char \<Rightarrow> bool" where
  "is_alpha c = (let n = (of_char c :: nat) in (65 \<le> n \<and> n \<le> 90) \<or> (97 \<le> n \<and> n \<le> 122))"

fun title_from :: "bool \<Rightarrow> string \<Rightarrow> string" where
  "title_from inside [] = []"
| "title_from inside (c # cs) =
     (if is_alpha c then (if inside then lower_char c else upper_char c) # title_from True cs
      else c # title_from False cs)"

definition title :: "string \<Rightarrow> string" where
  "title s = title_from False s"

definition capitalize :: "string \<Rightarrow> string" where
  "capitalize s = (case s of [] \<Rightarrow> [] | c # cs \<Rightarrow> upper_char c # lower cs)"

record text_case_params =
  tc_column :: "string option"
  tc_case_type :: string

text \<open>
  \<open>TextCaseTransformer.transform\<close>. Every statement \<open>result[column] = ...\<close> is an update of
  the frame \<open>result\<close> refers to.
\<close>

definition text_case_transform ::
  "transform_library \<Rightarrow> heap \<Rightarrow> ref \<Rightarrow> text_case_params \<Rightarrow> heap \<times> (exn + ref)" where
  "text_case_transform T h0 df p =
     (let (h, result) = df_copy h0 df in
      if \<not> in_columns (tc_column p) (h ! result)
      then (h, Inl (ValueError (''Column '' @ quoted (str_opt (tc_column p)) @ '' not found in dataframe'')))
      else
        (let column = the (tc_column p);
             texts = map (astype_str T) (get_col (h ! result) column);
             h1 = frame_set_col h result column (map Text texts)
         in if tc_case_type p = ''lower''
            then (frame_set_col h1 result column (map (\<lambda>s. Text (lower s)) texts), Inr result)
            else if tc_case_type p = ''upper''
            then (frame_set_col h1 result column (map (\<lambda>s. Text (upper s)) texts), Inr result)
            else if tc_case_type p = ''title''
            then (frame_set_col h1 result column (map (\<lambda>s. Text (title s)) texts), Inr result)
            else if tc_case_type p = ''sentence''
            then (let h2 = frame_set_col h1 result column (map (\<lambda>s. Text (lower s)) texts)
                  in (frame_set_col h2 result column (map (\<lambda>s. Text (capitalize (lower s))) texts),
                      Inr result))
            else (h1, Inr result)))"

text \<open>\<open>except re.error\<close>: the exceptions it catches.\<close>

fun is_re_error :: "exn \<Rightarrow> bool" where
  "is_re_error (ReError m) = True"
| "is_re_error e = False"

record pattern_params =
  pe_source_column :: "string option"
  pe_target_column :: string
  pe_pattern :: "string option"
  pe_replace_na :: string

text \<open>
  \<open>TextPatternExtractor.transform\<close>. The target column is a required parameter of the
  transformer; a column labelled \<open>None\<close> is outside the table model. Only \<open>re.error\<close> is
  caught.
\<close>

definition pattern_extract_transform ::
  "transform_library \<Rightarrow> heap \<Rightarrow> ref \<Rightarrow> pattern_params \<Rightarrow> heap \<times> (exn + ref)" where
  "pattern_extract_transform T h0 df p =
     (let (h, result) = df_copy h0 df in
      if \<not> in_columns (pe_source_column p) (h ! result)
      then (h, Inl (ValueError (''Column '' @ quoted (str_opt (pe_source_column p)) @ '' not found in dataframe'')))
      else if \<not> truthy (pe_pattern p)
      then (h, Inl (ValueError ''Regular expression pattern cannot be empty''))
      else
        (let source_column = the (pe_source_column p);
             texts = map (astype_str T) (get_col (h ! result) source_column);
             h1 = frame_set_col h result source_column (map Text texts)
         in case re_compile T (the (pe_pattern p)) of
              Some e \<Rightarrow>
                (h1, Inl (if is_re_error e
                          then ValueError (''Invalid regular expression: '' @ exn_message e)
                          else e))
            | None \<Rightarrow>
                (frame_set_col h1 result (pe_target_column p)
                   (map (\<lambda>text. case re_search T (the (pe_pattern p)) text of
                                   Some m \<Rightarrow> Text m
                                 | None \<Rightarrow> Text (pe_replace_na p)) texts),
                 Inr result)))"

record replace_params =
  tr_column :: "string option"
  tr_pattern :: "string option"
  tr_replacement :: string
  tr_case_sensitive :: bool

text \<open>\<open>TextReplaceTransformer.transform\<close>.\<close>

definition text_replace_transform ::
  "transform_library \<Rightarrow> heap \<Rightarrow> ref \<Rightarrow> replace_params \<Rightarrow> heap \<times> (exn + ref)" where
  "text_replace_transform T h0 df p =
     (let (h, result) = df_copy h0 df in
      if \<not> in_columns (tr_column p) (h ! result)
      then (h, Inl (ValueError (''Column '' @ quoted (str_opt (tr_column p)) @ '' not found in dataframe'')))
      else if \<not> truthy (tr_pattern p)
      then (h, Inl (ValueError ''Search pattern cannot be empty''))
      else
        (let column = the (tr_column p);
             texts = map (astype_str T) (get_col (h ! result) column);
             h1 = frame_set_col h result column (map Text texts)
         in case str_replace T (the (tr_pattern p)) (tr_replacement p) (tr_case_sensitive p) texts of
              Inl e \<Rightarrow>
                (h1, Inl (if is_re_error e
                          then ValueError (''Invalid regular expression: '' @ exn_message e)
                          else e))
            | Inr replaced \<Rightarrow> (frame_set_col h1 result column (map Text replaced), Inr result)))"

section \<open>Date transformers (\<open>date_transformer.py\<close>)\<close>

record date_format_params =
  df_column :: "string option"
  df_input_format :: string
  df_output_format :: "string option"
  df_custom_output_format :: string
  df_create_new_column :: bool
  df_new_column_name :: string

text \<open>
  \<open>DateFormatTransformer.transform\<close>. An empty input format lets pandas infer it
  (\<open>None\<close> for the library). NaT is formatted as the empty text.
\<close>

definition date_format_transform ::
  "transform_library \<Rightarrow> heap \<Rightarrow> ref \<Rightarrow> date_format_params \<Rightarrow> heap \<times> (exn + ref)" where
  "date_format_transform T h0 df p =
     (let (h, result) = df_copy h0 df in
      if \<not> in_columns (df_column p) (h ! result)
      then (h, Inl (ValueError (''Column '' @ quoted (str_opt (df_column p)) @ '' not found in dataframe'')))
      else if df_output_format p = Some ''custom'' \<and> df_custom_output_format p = []
      then (h, Inl (ValueError ''Custom output format cannot be empty''))
      else
        (let column = the (df_column p);
             actual_output_format =
               (if df_output_format p = Some ''custom'' then Some (df_custom_output_format p)
                else df_output_format p);
             target_column =
               (if df_create_new_column p \<and> df_new_column_name p \<noteq> [] then df_new_column_name p
                else column)
         in case to_datetime T (if df_input_format p \<noteq> [] then Some (df_input_format p) else None)
                   (get_col (h ! result) column) of
              Inl e \<Rightarrow> (h, Inl (ValueError (''Error formatting dates: '' @ exn_message e)))
            | Inr datetime_series \<Rightarrow>
                (case dt_strftime T actual_output_format datetime_series of
                   Inl e \<Rightarrow> (h, Inl (ValueError (''Error formatting dates: '' @ exn_message e)))
                 | Inr formatted_dates \<Rightarrow>
                     (frame_set_col h result target_column
                        (map (\<lambda>v. case v of None \<Rightarrow> Text [] | Some s \<Rightarrow> Text s) formatted_dates),
                      Inr result))))"

record date_extract_params =
  de_column :: "string option"
  de_component :: "string option"
  de_target_column :: "string option"

text \<open>
  The chain on \<open>component\<close>: the value assigned to the target column, \<open>None\<close> when no branch
  matches. The day of the week is counted from 1.
\<close>

definition add_one :: "cell \<Rightarrow> cell" where
  "add_one c = (case c of Num x \<Rightarrow> Num (x + 1) | other \<Rightarrow> other)"

definition extract_component ::
  "transform_library \<Rightarrow> string option \<Rightarrow> real option list \<Rightarrow> exn + cell list option" where
  "extract_component T component s =
     (if component = Some ''year'' then map_sum id Some (dt_accessor T ''year'' s)
      else if component = Some ''month'' then map_sum id Some (dt_accessor T ''month'' s)
      else if component = Some ''month_name''
      then map_sum id (\<lambda>vs. Some (map (\<lambda>v. case v of None \<Rightarrow> NaN | Some t \<Rightarrow> Text t) vs))
             (dt_strftime T (Some ''%B'') s)
      else if component = Some ''day'' then map_sum id Some (dt_accessor T ''day'' s)
      else if component = Some ''day_of_week''
      then map_sum id (\<lambda>vs. Some (map add_one vs)) (dt_accessor T ''dayofweek'' s)
      else if component = Some ''day_name''
      then map_sum id (\<lambda>vs. Some (map (\<lambda>v. case v of None \<Rightarrow> NaN | Some t \<Rightarrow> Text t) vs))
             (dt_strftime T (Some ''%A'') s)
      else if component = Some ''quarter'' then map_sum id Some (dt_accessor T ''quarter'' s)
      else if component = Some ''week'' then map_sum id Some (dt_accessor T ''isocalendar().week'' s)
      else if component = Some ''hour'' then map_sum id Some (dt_accessor T ''hour'' s)
      else if component = Some ''minute'' then map_sum id Some (dt_accessor T ''minute'' s)
      else if component = Some ''second'' then map_sum id Some (dt_accessor T ''second'' s)
      else Inr None)"

text \<open>\<open>DateExtractTransformer.transform\<close>.\<close>

definition date_extract_transform ::
  "transform_library \<Rightarrow> heap \<Rightarrow> ref \<Rightarrow> date_extract_params \<Rightarrow> heap \<times> (exn + ref)" where
  "date_extract_transform T h0 df p =
     (let (h, result) = df_copy h0 df in
      if \<not> in_columns (de_column p) (h ! result)
      then (h, Inl (ValueError (''Column '' @ quoted (str_opt (de_column p)) @ '' not found in dataframe'')))
      else if \<not> truthy (de_target_column p)
      then (h, Inl (ValueError ''Target column name cannot be empty''))
      else
        (case to_datetime T None (get_col (h ! result) (the (de_column p))) of
           Inl e \<Rightarrow> (h, Inl (ValueError (''Error extracting date components: '' @ exn_message e)))
         | Inr datetime_series \<Rightarrow>
             (case extract_component T (de_component p) datetime_series of
                Inl e \<Rightarrow> (h, Inl (ValueError (''Error extracting date components: '' @ exn_message e)))
              | Inr None \<Rightarrow> (h, Inr result)
              | Inr (Some vs) \<Rightarrow> (frame_set_col h result (the (de_target_column p)) vs, Inr result))))"

record date_difference_params =
  dd_start_column :: "string option"
  dd_end_column :: "string option"
  dd_target_column :: "string option"
  dd_unit :: string
  dd_absolute_value :: bool

text \<open>The seconds in one unit; \<open>None\<close> for a unit that no branch matches.\<close>

definition unit_seconds :: "string \<Rightarrow> real option" where
  "unit_seconds unit =
     (if unit = ''days'' then Some (60 * 60 * 24)
      else if unit = ''hours'' then Some (60 * 60)
      else if unit = ''minutes'' then Some 60
      else if unit = ''seconds'' then Some 1
      else if unit = ''weeks'' then Some (60 * 60 * 24 * 7)
      else if unit = ''months'' then Some (60 * 60 * 24 * (3044 / 100))
      else if unit = ''years'' then Some (60 * 60 * 24 * (36525 / 100))
      else None)"

definition round2 :: "real \<Rightarrow> real" where
  "round2 x = round_half_even (x * 100) / 100"

text \<open>
  \<open>DateDifferenceTransformer.transform\<close>. When no branch matches the unit, the target
  column is read without having been assigned: a \<open>KeyError\<close> unless the frame already has
  it, and then it must hold numbers for \<open>abs\<close> and \<open>round\<close>.
\<close>

definition date_difference_transform ::
  "transform_library \<Rightarrow> heap \<Rightarrow> ref \<Rightarrow> date_difference_params \<Rightarrow> heap \<times> (exn + ref)" where
  "date_difference_transform T h0 df p =
     (let (h, result) = df_copy h0 df in
      if \<not> in_columns (dd_start_column p) (h ! result)
      then (h, Inl (ValueError (''Start column '' @ quoted (str_opt (dd_start_column p)) @ '' not found in dataframe'')))
      else if \<not> in_columns (dd_end_column p) (h ! result)
      then (h, Inl (ValueError (''End column '' @ quoted (str_opt (dd_end_column p)) @ '' not found in dataframe'')))
      else if \<not> truthy (dd_target_column p)
      then (h, Inl (ValueError ''Target column name cannot be empty''))
      else
        (let target_column = the (dd_target_column p);
             wrap = (\<lambda>e. ValueError (''Error calculating date difference: '' @ exn_message e))
         in case to_datetime T None (get_col (h ! result) (the (dd_start_column p))) of
              Inl e \<Rightarrow> (h, Inl (wrap e))
            | Inr start_dates \<Rightarrow>
                (case to_datetime T None (get_col (h ! result) (the (dd_end_column p))) of
                   Inl e \<Rightarrow> (h, Inl (wrap e))
                 | Inr end_dates \<Rightarrow>
                     (let diff = map2 (lift2 (-)) end_dates start_dates;
                          h1 = (case unit_seconds (dd_unit p) of
                                  None \<Rightarrow> h
                                | Some u \<Rightarrow> frame_set_col h result target_column
                                              (map (\<lambda>d. float_cell (map_option (\<lambda>x. x / u) d)) diff))
                      in if target_column \<notin> set (columns (h1 ! result))
                         then (h1, Inl (wrap (KeyError target_column)))
                         else if \<not> is_numeric_column (get_col (h1 ! result) target_column)
                         then (h1, Inl (wrap (TypeError ''unsupported operand type'')))
                         else
                           (let h2 = (if dd_absolute_value p
                                      then frame_set_col h1 result target_column
                                             (map (\<lambda>c. case c of Num x \<Rightarrow> Num \<bar>x\<bar> | other \<Rightarrow> other)
                                                (get_col (h1 ! result) target_column))
                                      else h1)
                            in (frame_set_col h2 result target_column
                                  (map (\<lambda>c. case c of Num x \<Rightarrow> Num (round2 x) | other \<Rightarrow> other)
                                     (get_col (h2 ! result) target_column)),
                                Inr result))))))"

section \<open>Cleaning Stage (\<open>clean_dataframe\<close>, \<open>data_processors.py\<close>)\<close>

text \<open>
  The options as \<open>clean_dataframe\<close> reads them with \<open>options.get\<close>. \<open>co_fill_value\<close> is
  \<open>None\<close> when the key is absent and \<open>Some None\<close> when its value is \<open>None\<close>.
\<close>

record clean_options =
  co_ignore_case :: bool
  co_fill_method :: "string option"
  co_fill_value :: "string option option"
  co_handle_duplicates :: bool
  co_join_key :: "string option"

text \<open>
  The fill step. \<open>result = result.fillna(...)\<close> binds \<open>result\<close> to a new frame; the loops
  \<open>result[col] = result[col].fillna(...)\<close> over the columns update the frame in place.
\<close>

definition clean_fill :: "merge_library \<Rightarrow> heap \<Rightarrow> ref \<Rightarrow> clean_options \<Rightarrow> heap \<times> (exn + ref)" where
  "clean_fill M h result options =
     (if truthy (co_fill_method options) \<and> co_fill_method options \<noteq> Some ''None (keep NaN)'' then
        (if co_fill_method options = Some ''Zero''
         then map_prod id Inr (alloc h (fillna (Num 0) (h ! result)))
         else if co_fill_method options = Some ''Mean''
         then (frame_update h result (map_columns (fill_numeric mean_of)), Inr result)
         else if co_fill_method options = Some ''Median''
         then (frame_update h result (map_columns (fill_numeric median_of)), Inr result)
         else if co_fill_method options = Some ''Mode''
         then (frame_update h result (map_columns (fill_mode M)), Inr result)
         else if co_fill_method options = Some ''Forward fill''
         then map_prod id Inr (alloc h (map_columns ffill (h ! result)))
         else if co_fill_method options = Some ''Backward fill''
         then map_prod id Inr (alloc h (map_columns bfill (h ! result)))
         else if co_fill_method options = Some ''Custom value'' \<and> co_fill_value options \<noteq> None
         then (case the (co_fill_value options) of
                 None \<Rightarrow> (h, Inl (ValueError ''Must specify a fill value or method.''))
               | Some v \<Rightarrow> map_prod id Inr (alloc h (fillna (custom_fill_value v) (h ! result))))
         else (h, Inr result))
      else (h, Inr result))"

text \<open>\<open>clean_dataframe\<close>.\<close>

definition clean_dataframe :: "merge_library \<Rightarrow> heap \<Rightarrow> ref \<Rightarrow> clean_options \<Rightarrow> heap \<times> (exn + ref)" where
  "clean_dataframe M h0 df options =
     (let (h, result) = df_copy h0 df;
          h1 = (if co_ignore_case options then frame_update h result (rename_columns lower) else h)
      in case clean_fill M h1 result options of
           (h2, Inl e) \<Rightarrow> (h2, Inl e)
         | (h2, Inr result2) \<Rightarrow>
             if co_handle_duplicates options then
               (if truthy (co_join_key options) \<and> in_columns (co_join_key options) (h2 ! result2)
                then map_prod id Inr (alloc h2 (drop_duplicates_subset (h2 ! result2) (the (co_join_key options))))
                else map_prod id Inr (alloc h2 (drop_duplicates (h2 ! result2))))
             else (h2, Inr result2))"

section \<open>Calculated column (\<open>create_calculated_column\<close>, \<open>data_processors.py\<close>)\<close>

text \<open>
  \<open>sub in s\<close> for strings: \<open>sub\<close> occurs somewhere in \<open>s\<close>.
\<close>

fun py_in :: "string \<Rightarrow> string \<Rightarrow> bool" where
  "py_in sub [] = (sub = [])"
| "py_in sub (c # cs) = (take (length sub) (c # cs) = sub \<or> py_in sub cs)"

text \<open>
  A value bound in the namespace handed to \<open>eval\<close>: a column of the frame or the numpy
  module. \<open>eval\<close> returns a scalar or a series.
\<close>

datatype ns_value = ColumnValue "cell list" | NumpyModule

datatype eval_result = Scalar cell | SeriesValue "cell list"

text \<open>\<open>d[k] = v\<close> on a dict kept as an association list in insertion order.\<close>

fun dict_set :: "(string \<times> 'v) list \<Rightarrow> string \<Rightarrow> 'v \<Rightarrow> (string \<times> 'v) list" where
  "dict_set [] k v = [(k, v)]"
| "dict_set ((k', v') # d) k v = (if k' = k then (k, v) # d else (k', v') # dict_set d k v)"

text \<open>
  \<open>local_dict\<close>: the columns whose name occurs in the expression text, then \<open>np\<close>.
\<close>

definition local_dict :: "table \<Rightarrow> string \<Rightarrow> (string \<times> ns_value) list" where
  "local_dict t expression =
     dict_set
       (map (\<lambda>col. (col, ColumnValue (get_col t col)))
          (union_index [] (filter (\<lambda>col. py_in col expression) (columns t))))
       ''np'' NumpyModule"

text \<open>
  \<open>create_calculated_column\<close>. \<open>py_eval expression local_dict\<close> stands for Python's
  \<open>eval(expression, {"__builtins__": {}}, local_dict)\<close>. A scalar is broadcast to every
  row; a series of another length cannot be assigned. Every exception of the \<open>try\<close> block
  is raised again as a \<open>ValueError\<close> with its message.
\<close>

definition create_calculated_column ::
  "(string \<Rightarrow> (string \<times> ns_value) list \<Rightarrow> exn + eval_result) \<Rightarrow> heap \<Rightarrow> ref \<Rightarrow> string \<Rightarrow> string
     \<Rightarrow> heap \<times> (exn + ref)" where
  "create_calculated_column py_eval h0 df column_name expression =
     (let (h, result) = df_copy h0 df;
          wrap = (\<lambda>e. ValueError (''Error creating calculated column: '' @ exn_message e))
      in case py_eval expression (local_dict (h ! result) expression) of
           Inl e \<Rightarrow> (h, Inl (wrap e))
         | Inr (Scalar c) \<Rightarrow>
             (frame_set_col h result column_name (replicate (nrows (h ! result)) c), Inr result)
         | Inr (SeriesValue vs) \<Rightarrow>
             if length vs = nrows (h ! result)
             then (frame_set_col h result column_name vs, Inr result)
             else (h, Inl (wrap (ValueError ''Length of values does not match length of index''))))"

section \<open>Example inputs\<close>

text \<open>
  Concrete inputs on which the theorems below are evaluated. \<open>example_float\<close> reads
  decimal digits with at most one point, as \<open>float\<close> does; the other library functions
  of the example are not reached by the evaluations and fail.
\<close>

definition example_float :: "string \<Rightarrow> real option" where
  "example_float s = (if isdigit (remove_first (CHR ''.'') s) then Some (decimal_value s) else None)"

definition example_library :: library where
  "example_library =
     \<lparr>py_float = example_float,
      np_power = (\<lambda>a b. None),
      pd_cut_count = (\<lambda>xs n labels right. Inl (LibraryError ''pd.cut'')),
      pd_qcut = (\<lambda>xs q labels. Inl (LibraryError ''pd.qcut''))\<rparr>"

definition example_merge_library :: merge_library where
  "example_merge_library =
     \<lparr>seq_ratio = (\<lambda>a b. if a = b then 1 else 0),
      pd_merge = (\<lambda>left right on how suffix. Inl (LibraryError ''pd.merge'')),
      set_order = (\<lambda>xs. xs),
      series_mode = (\<lambda>vs. [])\<rparr>"

definition example_left :: table where
  "example_left = \<lparr>nrows = 2, cols = [(''id'', [Num 1, Num 2]), (''name'', [Text ''Ann'', Text ''Bob''])]\<rparr>"

definition example_right :: table where
  "example_right = \<lparr>nrows = 1, cols = [(''id'', [Num 3]), (''city'', [Text ''Oslo''])]\<rparr>"


definition example_options :: merge_options where
  "example_options =
     \<lparr>merge_method = ''Append (stack vertically)'', join_key = None, join_type = ''outer'',
      matching_columns = False, output_filename = ''merged'', ignore_case = True,
      handle_duplicates = False, fill_missing = False, fill_method = None, fill_value = None,
      matching_threshold = Some 80\<rparr>"









definition example_scaling_params :: scaling_params where
  "example_scaling_params =
     \<lparr>sp_column = Some ''a'', sp_method = ''min_max'', sp_min_value = 0, sp_max_value = 100,
      sp_create_new_column = True, sp_new_column_name = None\<rparr>"

definition example_frame :: table where
  "example_frame = \<lparr>nrows = 2, cols = [(''a'', [Num 6, Num 8]), (''b'', [Num 0, Num 2])]\<rparr>"

definition example_math_params :: math_params where
  "example_math_params =
     \<lparr>mp_operation = ''basic'', mp_column1 = Some ''a'', mp_operator = ''/'',
      mp_column2 = Some ''b'', mp_value = 0, mp_use_value = False, mp_function = ''log'',
      mp_aggregate_columns = [], mp_aggregate_function = ''sum'',
      mp_target_column = Some ''q''\<rparr>"

definition example_binning_params :: binning_params where
  "example_binning_params =
     \<lparr>bp_column = Some ''a'', bp_method = ''custom'', bp_num_bins = 5,
      bp_custom_bins = ''0,18,35,50,65,100'', bp_labels = [],
      bp_target_column = Some ''g'', bp_include_right = True\<rparr>"

section \<open>Properties of the delimiter detection\<close>

lemma py_max_from_mem: "py_max_from key best xs \<in> set (best # xs)"
  by (induction xs arbitrary: best) auto



lemma likely_delimiter_mem: "likely_delimiter sample \<in> set potential_delimiters"
proof -
  have "likely_delimiter sample \<in> set (hd potential_delimiters # tl potential_delimiters)"
    unfolding likely_delimiter_def by (rule py_max_from_mem)
  then show ?thesis by (simp add: potential_delimiters_def)
qed






section \<open>Properties of tables and of the store\<close>

lemma map_of_set_col_same:
  "map_of (map (\<lambda>(n, old). if n = c then (n, vs) else (n, old)) xs) c = (if c \<in> fst ` set xs then Some vs else None)"
  by (induction xs) auto

lemma get_col_set_col_same: "get_col (set_col t c vs) c = vs"
  by (auto simp: get_col_def set_col_def columns_def map_of_set_col_same map_of_eq_None_iff[THEN iffD2] split: option.splits)

lemma map_of_set_col_other:
  "c' \<noteq> c \<Longrightarrow> map_of (map (\<lambda>(n, old). if n = c then (n, vs) else (n, old)) xs) c' = map_of xs c'"
  by (induction xs) auto

lemma get_col_set_col_other: "c' \<noteq> c \<Longrightarrow> get_col (set_col t c vs) c' = get_col t c'"
  by (auto simp: get_col_def set_col_def columns_def map_of_set_col_other map_of_append map_add_def split: option.splits)

lemma columns_set_col:
  "columns (set_col t c vs) = (if c \<in> set (columns t) then columns t else columns t @ [c])"
  by (auto simp: set_col_def columns_def case_prod_beta intro!: map_idI)

lemma nrows_set_col: "nrows (set_col t c vs) = nrows t"
  by (simp add: set_col_def)

lemma wf_get_col_length: "wf_table t \<Longrightarrow> c \<in> set (columns t) \<Longrightarrow> length (get_col t c) = nrows t"
  by (auto simp: wf_table_def get_col_def columns_def list_all_iff split: option.splits)


lemma math_literal_zero_raises:
  assumes "mp_operation p = ''basic''" and "mp_operator p = ''/'' \<or> mp_operator p = ''%''"
    and "mp_use_value p \<or> \<not> truthy (mp_column2 p)" and "mp_value p = 0"
  shows "\<exists>e. math_transform L h df p = (h @ [h ! df], Inl e)"
proof -
  have "\<exists>e. math_try_block L t c1 d p = Inl e" for t c1 d
    using assms by (auto simp: math_try_block_def basic_operation_def)
  then obtain e where "math_try_block L (h ! df) (the (mp_column1 p))
      (pd_to_numeric L (get_col (h ! df) (the (mp_column1 p)))) p = Inl e"
    by blast
  then show ?thesis
    by (simp add: math_transform_def df_copy_def Let_def)
qed

lemma math_column_divisor:
  assumes "mp_operation p = ''basic''" and "\<not> mp_use_value p"
    and "mp_column1 p = Some c1" and "c1 \<in> set (columns (h ! df))"
    and "mp_column2 p = Some c2" and "c2 \<noteq> []" and "c2 \<in> set (columns (h ! df))"
    and "mp_target_column p = Some tc" and "tc \<noteq> []"
    and "mp_operator p = ''/'' \<and> f = (/) \<or> mp_operator p = ''%'' \<and> f = float_mod"
  shows "math_transform L h df p =
           (h @ [set_col (h ! df) tc
                  (map float_cell (map2 (lift2 f) (pd_to_numeric L (get_col (h ! df) c1))
                     (replace_zero (pd_to_numeric L (get_col (h ! df) c2)))))],
            Inr (length h))"
  using assms
  by (auto simp: math_transform_def df_copy_def Let_def in_columns_def truthy_def
      math_try_block_def basic_operation_def series_op_def frame_set_col_def)

section \<open>Properties of the Math Operation Transformer\<close>

text \<open>
  Claim C5. A basic operation with the operator \<open>/\<close> (or \<open>%\<close>) on a frame of the store.
  When the divisor is the literal \<open>value\<close> and it is zero, \<open>transform\<close> raises and the copy
  it worked on has no new column. When the divisor is a column, \<open>transform\<close> returns a new
  frame whose target column has a cell for every row: NaN in each row where the divisor
  is zero, and the quotient (the remainder) in each row where both operands are numbers
  and the divisor is not zero.
\<close>

theorem math_divide_by_zero:
  assumes "mp_operation p = ''basic''"
    and "mp_operator p = ''/'' \<and> f = (/) \<or> mp_operator p = ''%'' \<and> f = float_mod"
    and "df < length h" and "wf_table (h ! df)"
  shows "((mp_use_value p \<or> \<not> truthy (mp_column2 p)) \<and> mp_value p = 0 \<longrightarrow>
            (\<exists>e. math_transform L h df p = (h @ [h ! df], Inl e))) \<and>
         (\<not> mp_use_value p \<and> mp_column1 p = Some c1 \<and> c1 \<in> set (columns (h ! df)) \<and>
          mp_column2 p = Some c2 \<and> c2 \<noteq> [] \<and> c2 \<in> set (columns (h ! df)) \<and>
          mp_target_column p = Some tc \<and> tc \<noteq> [] \<longrightarrow>
            (\<exists>t'. math_transform L h df p = (h @ [t'], Inr (length h)) \<and>
               length (get_col t' tc) = nrows (h ! df) \<and>
               (\<forall>i < nrows (h ! df).
                  (pd_to_numeric L (get_col (h ! df) c2) ! i = Some 0 \<longrightarrow> get_col t' tc ! i = NaN) \<and>
                  (\<forall>x y. pd_to_numeric L (get_col (h ! df) c1) ! i = Some x \<and>
                         pd_to_numeric L (get_col (h ! df) c2) ! i = Some y \<and> y \<noteq> 0 \<longrightarrow>
                         get_col t' tc ! i = Num (f x y)))))"
proof (intro conjI impI)
  assume "(mp_use_value p \<or> \<not> truthy (mp_column2 p)) \<and> mp_value p = 0"
  with assms(1,2) show "\<exists>e. math_transform L h df p = (h @ [h ! df], Inl e)"
    by (intro math_literal_zero_raises) auto
next
  assume a: "\<not> mp_use_value p \<and> mp_column1 p = Some c1 \<and> c1 \<in> set (columns (h ! df)) \<and>
          mp_column2 p = Some c2 \<and> c2 \<noteq> [] \<and> c2 \<in> set (columns (h ! df)) \<and>
          mp_target_column p = Some tc \<and> tc \<noteq> []"
  let ?a = "pd_to_numeric L (get_col (h ! df) c1)"
  let ?b = "pd_to_numeric L (get_col (h ! df) c2)"
  let ?out = "map float_cell (map2 (lift2 f) ?a (replace_zero ?b))"
  let ?t = "set_col (h ! df) tc ?out"
  have run: "math_transform L h df p = (h @ [?t], Inr (length h))"
    using assms(1,2) a by (intro math_column_divisor) auto
  have la: "length ?a = nrows (h ! df)" and lb: "length ?b = nrows (h ! df)"
    using a assms(4) by (simp_all add: pd_to_numeric_def wf_get_col_length)
  have out: "get_col ?t tc = ?out" by (rule get_col_set_col_same)
  have len: "length ?out = nrows (h ! df)" using la lb by (simp add: replace_zero_def)
  have rows: "(?b ! i = Some 0 \<longrightarrow> ?out ! i = NaN) \<and>
        (\<forall>x y. ?a ! i = Some x \<and> ?b ! i = Some y \<and> y \<noteq> 0 \<longrightarrow> ?out ! i = Num (f x y))"
    if "i < nrows (h ! df)" for i
    using that la lb
    by (auto simp: replace_zero_def lift2_def float_cell_def split: option.splits)
  show "\<exists>t'. math_transform L h df p = (h @ [t'], Inr (length h)) \<and>
               length (get_col t' tc) = nrows (h ! df) \<and>
               (\<forall>i < nrows (h ! df).
                  (?b ! i = Some 0 \<longrightarrow> get_col t' tc ! i = NaN) \<and>
                  (\<forall>x y. ?a ! i = Some x \<and> ?b ! i = Some y \<and> y \<noteq> 0 \<longrightarrow>
                         get_col t' tc ! i = Num (f x y)))"
    apply (rule exI [of _ ?t])
    apply (simp only: out)
    using run len rows by blast
qed

theorem math_divide_by_zero_witness:
  "math_transform example_library [example_frame] 0 example_math_params
     = ([example_frame,
         \<lparr>nrows = 2, cols = [(''a'', [Num 6, Num 8]), (''b'', [Num 0, Num 2]), (''q'', [NaN, Num 4])]\<rparr>],
        Inr 1) \<and>
   math_transform example_library [example_frame] 0 (example_math_params\<lparr>mp_use_value := True\<rparr>)
     = ([example_frame, example_frame], Inl (ValueError ''Error performing math operation: Cannot divide by zero''))"
proof -
  have wf: "wf_table ([example_frame] ! 0)"
    by (simp add: wf_table_def example_frame_def columns_def)
  have e1: "math_transform example_library [example_frame] 0 example_math_params
     = ([example_frame,
         \<lparr>nrows = 2, cols = [(''a'', [Num 6, Num 8]), (''b'', [Num 0, Num 2]), (''q'', [NaN, Num 4])]\<rparr>],
        Inr 1)"
    by (simp add: math_transform_def df_copy_def example_math_params_def example_frame_def
        in_columns_def columns_def truthy_def math_try_block_def basic_operation_def
        pd_to_numeric_def to_numeric_cell_def get_col_def series_op_def replace_zero_def
        lift2_def frame_set_col_def set_col_def float_cell_def)
  have e2: "math_transform example_library [example_frame] 0 (example_math_params\<lparr>mp_use_value := True\<rparr>)
     = ([example_frame, example_frame], Inl (ValueError ''Error performing math operation: Cannot divide by zero''))"
    by (simp add: math_transform_def df_copy_def example_math_params_def example_frame_def
        in_columns_def columns_def truthy_def math_try_block_def basic_operation_def
        pd_to_numeric_def to_numeric_cell_def get_col_def exn_message_def)
  from math_divide_by_zero [of example_math_params "(/)" 0 "[example_frame]" example_library, OF _ _ _ wf]
       math_divide_by_zero [of "example_math_params\<lparr>mp_use_value := True\<rparr>" "(/)" 0 "[example_frame]" example_library, OF _ _ _ wf]
  show ?thesis using e1 e2 by simp
qed

section \<open>Properties of the Numeric Binning Transformer\<close>

lemma split_on_not_Nil: "split_on d s \<noteq> []"
  by (induction s) (auto split: list.splits)

lemma binning_label_mismatch_raises:
  assumes "bp_method p = ''custom''" and "bp_labels p \<noteq> []"
    and "\<And>edges. parse_bin_edges L (bp_custom_bins p) = Some edges \<Longrightarrow>
           length (the (parse_labels (bp_labels p))) \<noteq> length edges - 1"
  shows "\<exists>e. binning_transform L h df p = (h @ [h ! df], Inl e)"
proof -
  have "\<exists>e. binning_try_block L d (parse_labels (bp_labels p)) p = Inl e" for d
    using assms split_on_not_Nil [of "CHR '',''" "bp_labels p"]
    by (auto simp: binning_try_block_def parse_labels_def split: option.splits)
  then obtain e where "binning_try_block L (pd_to_numeric L (get_col (h ! df) (the (bp_column p))))
      (parse_labels (bp_labels p)) p = Inl e"
    by blast
  then show ?thesis
    by (simp add: binning_transform_def df_copy_def Let_def)
qed

lemma cut_categories_intervals:
  assumes "distinct edges"
  shows "length (cut_categories edges None right) = length edges - 1"
    and "distinct (cut_categories edges None right)"
proof -
  show "length (cut_categories edges None right) = length edges - 1"
    by (simp add: cut_categories_def)
  have "inj_on (\<lambda>i. Interval (edges ! i) (edges ! Suc i) right) {0 ..< length edges - 1}"
    using assms by (auto simp: inj_on_def nth_eq_iff_index_eq)
  then show "distinct (cut_categories edges None right)"
    by (simp add: cut_categories_def distinct_map)
qed

lemma searchsorted_le: "searchsorted edges x right \<le> length edges"
  by (simp add: searchsorted_def)

lemma cut_value_in_categories:
  assumes "length cats = length edges - 1" and "2 \<le> length edges"
  shows "cut_value edges cats right v \<in> insert NaN (set cats)"
proof (cases v)
  case None
  then show ?thesis by (simp add: cut_value_def)
next
  case (Some x)
  define ids where "ids = (if x = edges ! 0 then 1 else searchsorted edges x right)"
  have le: "ids \<le> length edges"
    using assms(2) searchsorted_le [of edges x right] by (simp add: ids_def)
  show ?thesis
  proof (cases "ids = length edges \<or> ids = 0")
    case True
    with Some show ?thesis by (simp add: cut_value_def ids_def Let_def)
  next
    case False
    with le assms(1) have "ids - 1 < length cats" by arith
    then have "cats ! (ids - 1) \<in> set cats" by simp
    with False Some show ?thesis by (simp add: cut_value_def ids_def Let_def)
  qed
qed

lemma binning_custom_no_labels:
  assumes "bp_method p = ''custom''" and "bp_custom_bins p \<noteq> []"
    and "parse_bin_edges L (bp_custom_bins p) = Some edges"
    and "sorted edges" and "distinct edges" and "2 \<le> length edges"
    and "bp_labels p = []"
    and "bp_column p = Some c" and "c \<in> set (columns (h ! df))"
    and "bp_target_column p = Some tc" and "tc \<noteq> []"
  shows "binning_try_block L xs None p =
           Inr (Some (cut_categories edges None (bp_include_right p),
                      map (cut_value edges (cut_categories edges None (bp_include_right p))
                             (bp_include_right p)) xs))"
    and "binning_transform L h df p =
           (h @ [set_col (h ! df) tc
                   (map (cut_value edges (cut_categories edges None (bp_include_right p))
                           (bp_include_right p))
                      (pd_to_numeric L (get_col (h ! df) c)))],
            Inr (length h))"
proof -
  show tb: "binning_try_block L xs None p =
           Inr (Some (cut_categories edges None (bp_include_right p),
                      map (cut_value edges (cut_categories edges None (bp_include_right p))
                             (bp_include_right p)) xs))" for xs
    using assms by (simp add: binning_try_block_def pd_cut_edges_def Let_def)
  show "binning_transform L h df p =
           (h @ [set_col (h ! df) tc
                   (map (cut_value edges (cut_categories edges None (bp_include_right p))
                           (bp_include_right p))
                      (pd_to_numeric L (get_col (h ! df) c)))],
            Inr (length h))"
    using assms
    by (simp add: binning_transform_def df_copy_def Let_def in_columns_def truthy_def
        parse_labels_def tb frame_set_col_def)
qed

lemma parse_example_edges:
  assumes "py_float L ''0'' = Some 0" and "py_float L ''18'' = Some 18"
    and "py_float L ''35'' = Some 35" and "py_float L ''50'' = Some 50"
    and "py_float L ''65'' = Some 65" and "py_float L ''100'' = Some 100"
  shows "parse_bin_edges L ''0,18,35,50,65,100'' = Some [0, 18, 35, 50, 65, 100]"
  using assms by (simp add: parse_bin_edges_def strip_def is_space_def)

text \<open>
  Claim C6. Binning with custom edges. With the edge string \<open>0,18,35,50,65,100\<close> (which
  \<open>float\<close> reads as these six numbers) and no labels, \<open>transform\<close> returns a new frame whose
  target column is cut into exactly 5 pairwise different categories, every cell being one
  of them or NaN. Whenever labels are given and their number differs from the number of
  edges minus one, \<open>transform\<close> raises and the copy has no new column.
\<close>

theorem binning_custom_edges:
  assumes "bp_method p = ''custom''" and "df < length h"
  shows "(bp_custom_bins p = ''0,18,35,50,65,100'' \<and>
          py_float L ''0'' = Some 0 \<and> py_float L ''18'' = Some 18 \<and> py_float L ''35'' = Some 35 \<and>
          py_float L ''50'' = Some 50 \<and> py_float L ''65'' = Some 65 \<and> py_float L ''100'' = Some 100 \<and>
          bp_labels p = [] \<and> bp_column p = Some c \<and> c \<in> set (columns (h ! df)) \<and>
          bp_target_column p = Some tc \<and> tc \<noteq> [] \<longrightarrow>
            (\<exists>cats vs.
               binning_try_block L (pd_to_numeric L (get_col (h ! df) c)) None p = Inr (Some (cats, vs)) \<and>
               length cats = 5 \<and> distinct cats \<and> set vs \<subseteq> insert NaN (set cats) \<and>
               binning_transform L h df p = (h @ [set_col (h ! df) tc vs], Inr (length h)))) \<and>
         (bp_labels p \<noteq> [] \<and>
          (\<forall>edges. parse_bin_edges L (bp_custom_bins p) = Some edges \<longrightarrow>
             length (the (parse_labels (bp_labels p))) \<noteq> length edges - 1) \<longrightarrow>
            (\<exists>e. binning_transform L h df p = (h @ [h ! df], Inl e)))"
proof (intro conjI impI)
  assume a: "bp_custom_bins p = ''0,18,35,50,65,100'' \<and>
          py_float L ''0'' = Some 0 \<and> py_float L ''18'' = Some 18 \<and> py_float L ''35'' = Some 35 \<and>
          py_float L ''50'' = Some 50 \<and> py_float L ''65'' = Some 65 \<and> py_float L ''100'' = Some 100 \<and>
          bp_labels p = [] \<and> bp_column p = Some c \<and> c \<in> set (columns (h ! df)) \<and>
          bp_target_column p = Some tc \<and> tc \<noteq> []"
  let ?edges = "[0, 18, 35, 50, 65, 100] :: real list"
  let ?cats = "cut_categories ?edges None (bp_include_right p)"
  let ?xs = "pd_to_numeric L (get_col (h ! df) c)"
  let ?vs = "map (cut_value ?edges ?cats (bp_include_right p)) ?xs"
  have parse: "parse_bin_edges L (bp_custom_bins p) = Some ?edges"
    using a by (simp add: parse_example_edges)
  have ne: "bp_custom_bins p \<noteq> []" using a by simp
  have srt: "sorted ?edges" and dst: "distinct ?edges" and len: "2 \<le> length ?edges"
    by simp_all
  have tb: "binning_try_block L ?xs None p = Inr (Some (?cats, ?vs))"
    using assms(1) ne parse srt dst len a by (intro binning_custom_no_labels(1)) auto
  have run: "binning_transform L h df p = (h @ [set_col (h ! df) tc ?vs], Inr (length h))"
    using assms(1) ne parse srt dst len a by (intro binning_custom_no_labels(2)) auto
  have n5: "length ?cats = 5" using cut_categories_intervals(1) [OF dst] by simp
  have dc: "distinct ?cats" by (rule cut_categories_intervals(2) [OF dst])
  have sub: "set ?vs \<subseteq> insert NaN (set ?cats)"
    using cut_value_in_categories [of ?cats ?edges "bp_include_right p"] n5 by auto
  show "\<exists>cats vs.
               binning_try_block L ?xs None p = Inr (Some (cats, vs)) \<and>
               length cats = 5 \<and> distinct cats \<and> set vs \<subseteq> insert NaN (set cats) \<and>
               binning_transform L h df p = (h @ [set_col (h ! df) tc vs], Inr (length h))"
    using tb run n5 dc sub by blast
next
  assume "bp_labels p \<noteq> [] \<and>
          (\<forall>edges. parse_bin_edges L (bp_custom_bins p) = Some edges \<longrightarrow>
             length (the (parse_labels (bp_labels p))) \<noteq> length edges - 1)"
  with assms(1) show "\<exists>e. binning_transform L h df p = (h @ [h ! df], Inl e)"
    by (intro binning_label_mismatch_raises) auto
qed

theorem binning_custom_edges_witness:
  "binning_transform example_library [example_frame] 0 example_binning_params
     = ([example_frame,
         \<lparr>nrows = 2, cols = [(''a'', [Num 6, Num 8]), (''b'', [Num 0, Num 2]),
                             (''g'', [Interval 0 18 True, Interval 0 18 True])]\<rparr>],
        Inr 1) \<and>
   cut_categories [0, 18, 35, 50, 65, 100] None True
     = [Interval 0 18 True, Interval 18 35 True, Interval 35 50 True, Interval 50 65 True,
        Interval 65 100 True] \<and>
   binning_transform example_library [example_frame] 0 (example_binning_params\<lparr>bp_labels := ''w,x,y,z''\<rparr>)
     = ([example_frame, example_frame],
        Inl (ValueError ''Error binning data: Number of labels (4) must be one less than bin edges (6)''))"
proof -
  have pf: "py_float example_library ''0'' = Some 0" "py_float example_library ''18'' = Some 18"
    "py_float example_library ''35'' = Some 35" "py_float example_library ''50'' = Some 50"
    "py_float example_library ''65'' = Some 65" "py_float example_library ''100'' = Some 100"
    by (simp_all add: example_library_def example_float_def isdigit_def is_digit_def
        remove_first_def decimal_value_def digits_value_def)
  have parse: "parse_bin_edges example_library ''0,18,35,50,65,100'' = Some [0, 18, 35, 50, 65, 100]"
    by (rule parse_example_edges [OF pf])
  have cats: "cut_categories [0, 18, 35, 50, 65, 100] None True
     = [Interval 0 18 True, Interval 18 35 True, Interval 35 50 True, Interval 50 65 True,
        Interval 65 100 True]"
    by (simp add: cut_categories_def upt_rec)
  have e1: "binning_transform example_library [example_frame] 0 example_binning_params
     = ([example_frame,
         \<lparr>nrows = 2, cols = [(''a'', [Num 6, Num 8]), (''b'', [Num 0, Num 2]),
                             (''g'', [Interval 0 18 True, Interval 0 18 True])]\<rparr>],
        Inr 1)"
    by (simp add: binning_transform_def df_copy_def example_binning_params_def example_frame_def
        in_columns_def columns_def truthy_def binning_try_block_def parse parse_labels_def
        pd_cut_edges_def cats pd_to_numeric_def to_numeric_cell_def get_col_def
        cut_value_def searchsorted_def frame_set_col_def set_col_def)
  have d4: "char_of (52::nat) = CHR ''4''" and d6: "char_of (54::nat) = CHR ''6''"
    by code_simp+
  have e2: "binning_transform example_library [example_frame] 0 (example_binning_params\<lparr>bp_labels := ''w,x,y,z''\<rparr>)
     = ([example_frame, example_frame],
        Inl (ValueError ''Error binning data: Number of labels (4) must be one less than bin edges (6)''))"
    by (simp add: binning_transform_def df_copy_def example_binning_params_def example_frame_def
        in_columns_def columns_def truthy_def binning_try_block_def parse parse_labels_def
        exn_message_def strip_def is_space_def d4 d6)
  from binning_custom_edges [of example_binning_params 0 "[example_frame]" example_library "''a''" "''g''"]
       binning_custom_edges [of "example_binning_params\<lparr>bp_labels := ''w,x,y,z''\<rparr>" 0 "[example_frame]" example_library]
  show ?thesis using e1 e2 cats by simp
qed

section \<open>Properties of the Append merge\<close>

lemma union_index_set: "set (union_index seen cs) = set seen \<union> set cs"
  by (induction cs arbitrary: seen) auto

lemma union_index_distinct: "distinct seen \<Longrightarrow> distinct (union_index seen cs)"
  by (induction cs arbitrary: seen) auto

lemma remdups_snoc: "remdups (xs @ [c]) = remdups (removeAll c xs) @ [c]"
  by (induction xs) auto

lemma union_index_first_seen:
  "distinct seen \<Longrightarrow>
     union_index seen cs = seen @ rev (remdups (rev (filter (\<lambda>c. c \<notin> set seen) cs)))"
proof (induction cs arbitrary: seen)
  case Nil
  then show ?case by simp
next
  case (Cons c cs)
  show ?case
  proof (cases "c \<in> set seen")
    case True
    with Cons show ?thesis by simp
  next
    case False
    have f: "removeAll c (rev (filter (\<lambda>x. x \<notin> set seen) cs))
               = rev (filter (\<lambda>x. x \<notin> set (seen @ [c])) cs)"
      by (induction cs) auto
    from False Cons.prems have "distinct (seen @ [c])" by simp
    from Cons.IH [OF this] False show ?thesis
      by (simp add: remdups_snoc f)
  qed
qed

lemma union_columns_first_seen:
  "union_columns ts = rev (remdups (rev (concat (map columns ts))))"
  using union_index_first_seen [of "[]" "concat (map columns ts)"]
  by (simp add: union_columns_def)

lemma concat_nth_block:
  assumes "k < length ts" and "i < length (f (ts ! k))"
  shows "concat (map f ts) ! (sum_list (map (\<lambda>t. length (f t)) (take k ts)) + i) = f (ts ! k) ! i"
  using assms
proof (induction ts arbitrary: k)
  case Nil
  then show ?case by simp
next
  case (Cons t ts)
  show ?case
  proof (cases k)
    case 0
    with Cons.prems show ?thesis by (simp add: nth_append)
  next
    case (Suc k')
    with Cons.prems have "k' < length ts" and "i < length (f (ts ! k'))" by simp_all
    from Cons.IH [OF this] Suc show ?thesis by (simp add: nth_append)
  qed
qed

lemma reindex_col_length: "wf_table t \<Longrightarrow> length (reindex_col t c) = nrows t"
  by (auto simp: reindex_col_def wf_table_def list_all_iff split: option.splits dest!: map_of_SomeD)

lemma reindex_col_cases:
  "reindex_col t c = (if c \<in> set (columns t) then get_col t c else replicate (nrows t) NaN)"
  by (auto simp: reindex_col_def get_col_def columns_def map_of_eq_None_iff
      split: option.splits dest: map_of_SomeD intro: rev_image_eqI)

lemma map_of_keyed: "c \<in> set cs \<Longrightarrow> map_of (map (\<lambda>c. (c, g c)) cs) c = Some (g c)"
  by (induction cs) auto


lemma pd_concat_wf:
  assumes "ts \<noteq> []" and "list_all wf_table ts"
  shows "pd_concat ts =
           Inr \<lparr>nrows = sum_list (map nrows ts),
                cols = map (\<lambda>c. (c, concat (map (\<lambda>t. reindex_col t c) ts))) (union_columns ts)\<rparr>"
  using assms by (auto simp: pd_concat_def list_all_iff wf_table_def)

lemma concat_reindex_length:
  "list_all wf_table ts \<Longrightarrow> length (concat (map (\<lambda>t. reindex_col t c) ts)) = sum_list (map nrows ts)"
  by (induction ts) (simp_all add: reindex_col_length)

text \<open>
  Claim C3. The Append merge of a non-empty list of tables (each with pairwise different
  column names and all columns as long as its index): \<open>process_files\<close> merges them with
  \<open>pd.concat\<close>, and the result is a table whose row count is the sum of the row counts,
  whose columns are the union of the tables' columns in the order in which they are first
  seen, and whose cell in column \<open>c\<close> and in the \<open>i\<close>-th row contributed by the \<open>k\<close>-th
  table is that table's cell, or NaN when the table has no column \<open>c\<close>.
\<close>

theorem append_merge:
  assumes "ts \<noteq> []" and "list_all wf_table ts"
    and "merge_method options = ''Append (stack vertically)''"
  shows "\<exists>out. fst (merge_frames M options ts) = Inr out \<and> pd_concat ts = Inr out \<and>
           wf_table out \<and>
           nrows out = sum_list (map nrows ts) \<and>
           columns out = rev (remdups (rev (concat (map columns ts)))) \<and>
           set (columns out) = (\<Union>t \<in> set ts. set (columns t)) \<and>
           (\<forall>k < length ts. \<forall>i < nrows (ts ! k). \<forall>c \<in> set (columns out).
              get_col out c ! (sum_list (map nrows (take k ts)) + i)
                = (if c \<in> set (columns (ts ! k)) then get_col (ts ! k) c ! i else NaN))"
proof -
  define out where "out = \<lparr>nrows = sum_list (map nrows ts),
                cols = map (\<lambda>c. (c, concat (map (\<lambda>t. reindex_col t c) ts))) (union_columns ts)\<rparr>"
  have run: "pd_concat ts = Inr out"
    unfolding out_def by (rule pd_concat_wf [OF assms(1,2)])
  have mf: "fst (merge_frames M options ts) = Inr out"
    using assms(3) run by (simp add: merge_frames_def)
  have nr: "nrows out = sum_list (map nrows ts)"
    by (simp add: out_def)
  have cs: "columns out = union_columns ts"
    by (simp add: out_def columns_def comp_def)
  have order: "columns out = rev (remdups (rev (concat (map columns ts))))"
    by (simp only: cs union_columns_first_seen)
  have sets: "set (columns out) = (\<Union>t \<in> set ts. set (columns t))"
    by (simp only: order) simp
  have dist: "distinct (columns out)"
    by (simp only: order) simp
  have "list_all (\<lambda>c. length (snd c) = nrows out) (cols out)"
    using concat_reindex_length [OF assms(2)] by (simp add: out_def list_all_iff)
  with dist have wf: "wf_table out"
    by (simp add: wf_table_def)
  have col: "get_col out c = concat (map (\<lambda>t. reindex_col t c) ts)" if "c \<in> set (columns out)" for c
    using that unfolding cs by (simp add: get_col_def out_def map_of_keyed)
  have cell: "get_col out c ! (sum_list (map nrows (take k ts)) + i)
                = (if c \<in> set (columns (ts ! k)) then get_col (ts ! k) c ! i else NaN)"
    if "k < length ts" and "i < nrows (ts ! k)" and "c \<in> set (columns out)" for k i c
  proof -
    have wfk: "wf_table (ts ! k)" using assms(2) that(1) by (simp add: list_all_length)
    have lens: "map (\<lambda>t. length (reindex_col t c)) (take k ts) = map nrows (take k ts)"
      using assms(2) by (auto simp: list_all_iff reindex_col_length dest: in_set_takeD)
    have i: "i < length (reindex_col (ts ! k) c)" using that(2) wfk by (simp add: reindex_col_length)
    have "get_col out c ! (sum_list (map nrows (take k ts)) + i) = reindex_col (ts ! k) c ! i"
      using concat_nth_block [where f = "\<lambda>t. reindex_col t c", OF that(1) i]
      by (simp only: col [OF that(3)] lens)
    also have "\<dots> = (if c \<in> set (columns (ts ! k)) then get_col (ts ! k) c ! i else NaN)"
      using that(2) by (simp add: reindex_col_cases)
    finally show ?thesis .
  qed
  show ?thesis
    apply (rule exI [of _ out])
    using mf run wf nr order sets cell by blast
qed

theorem append_merge_witness:
  "pd_concat [example_left, example_right]
     = Inr \<lparr>nrows = 3,
            cols = [(''id'', [Num 1, Num 2, Num 3]),
                    (''name'', [Text ''Ann'', Text ''Bob'', NaN]),
                    (''city'', [NaN, NaN, Text ''Oslo''])]\<rparr> \<and>
   rev (remdups (rev (concat (map columns [example_left, example_right])))) = [''id'', ''name'', ''city'']"
proof -
  have wf: "list_all wf_table [example_left, example_right]"
    by (simp add: wf_table_def example_left_def example_right_def columns_def)
  have m: "merge_method example_options = ''Append (stack vertically)''"
    by (simp add: example_options_def)
  have e: "pd_concat [example_left, example_right]
     = Inr \<lparr>nrows = 3,
            cols = [(''id'', [Num 1, Num 2, Num 3]),
                    (''name'', [Text ''Ann'', Text ''Bob'', NaN]),
                    (''city'', [NaN, NaN, Text ''Oslo''])]\<rparr>"
    by (simp add: pd_concat_def example_left_def example_right_def columns_def union_columns_def
        reindex_col_def numeral_2_eq_2)
  from append_merge [of "[example_left, example_right]" example_options example_merge_library, OF _ wf m]
  show ?thesis using e by (simp add: example_left_def example_right_def columns_def)
qed

section \<open>Properties of the loading loop of \<open>process_files\<close>\<close>


















































section \<open>Properties of the Smart merge\<close>




















section \<open>The cleaning stage and the transformers leave their input alone\<close>

lemma take_frame_set_col:
  "n \<le> r \<Longrightarrow> take n (frame_set_col h r c vs) = take n h"
  by (simp add: frame_set_col_def)

lemma length_frame_set_col: "length (frame_set_col h r c vs) = length h"
  by (simp add: frame_set_col_def)

lemma take_frame_update: "n \<le> r \<Longrightarrow> take n (frame_update h r f) = take n h"
  by (simp add: frame_update_def)

lemma length_frame_update: "length (frame_update h r f) = length h"
  by (simp add: frame_update_def)

lemmas store_simps =
  take_frame_set_col length_frame_set_col take_frame_update length_frame_update
  preserves_store_def df_copy_def alloc_def Let_def

lemma math_transform_preserves: "preserves_store h (math_transform L h df p)"
  by (simp add: math_transform_def store_simps split: sum.splits option.splits)

lemma binning_transform_preserves: "preserves_store h (binning_transform L h df p)"
  by (simp add: binning_transform_def store_simps split: sum.splits option.splits prod.splits)

lemma scaling_transform_preserves: "preserves_store h (scaling_transform L h df p)"
  by (simp add: scaling_transform_def store_simps split: sum.splits)

lemma text_case_transform_preserves: "preserves_store h (text_case_transform T h df p)"
  by (simp add: text_case_transform_def store_simps)

lemma pattern_extract_transform_preserves: "preserves_store h (pattern_extract_transform T h df p)"
  by (simp add: pattern_extract_transform_def store_simps split: option.splits)

lemma text_replace_transform_preserves: "preserves_store h (text_replace_transform T h df p)"
  by (simp add: text_replace_transform_def store_simps split: sum.splits)

lemma date_format_transform_preserves: "preserves_store h (date_format_transform T h df p)"
  by (simp add: date_format_transform_def store_simps split: sum.splits)

lemma date_extract_transform_preserves: "preserves_store h (date_extract_transform T h df p)"
  by (simp add: date_extract_transform_def store_simps split: sum.splits option.splits)

lemma date_difference_transform_preserves: "preserves_store h (date_difference_transform T h df p)"
  by (simp add: date_difference_transform_def store_simps split: sum.splits option.splits)

lemma clean_fill_preserves:
  assumes "take n h = h0" and "n \<le> result" and "result < length h" and "n = length h0"
  shows "take n (fst (clean_fill M h result options)) = h0 \<and>
         (case snd (clean_fill M h result options) of
            Inl e \<Rightarrow> True
          | Inr r \<Rightarrow> n \<le> r \<and> r < length (fst (clean_fill M h result options)))"
  using assms
  by (auto simp: clean_fill_def take_frame_update length_frame_update alloc_def
      split: option.splits)

lemma clean_dataframe_preserves: "preserves_store h (clean_dataframe M h df options)"
proof -
  define h1 where "h1 = (if co_ignore_case options
      then frame_update (h @ [h ! df]) (length h) (rename_columns lower) else h @ [h ! df])"
  have a: "take (length h) h1 = h" "length h < length h1"
    by (simp_all add: h1_def take_frame_update length_frame_update)
  obtain h2 res where cf: "clean_fill M h1 (length h) options = (h2, res)"
    by (cases "clean_fill M h1 (length h) options")
  from clean_fill_preserves [of "length h" h1 h "length h" M options] a cf
  have b: "take (length h) h2 = h"
    and c: "case res of Inl e \<Rightarrow> True | Inr r \<Rightarrow> length h \<le> r \<and> r < length h2"
    by (auto split: sum.splits)
  have le: "length h \<le> length h2"
    using arg_cong [OF b, of length] by simp
  show ?thesis
    using b c le cf
    by (auto simp: clean_dataframe_def df_copy_def h1_def [symmetric] preserves_store_def alloc_def
        split: sum.splits)
qed


lemma preserves_store_input:
  assumes "preserves_store h (h', res)" and "df < length h"
  shows "h' ! df = h ! df" and "res = Inr r \<Longrightarrow> r \<noteq> df \<and> r < length h'"
proof -
  from assms(1) have t: "take (length h) h' = h" by (simp add: preserves_store_def)
  from assms(2) have "take (length h) h' ! df = h' ! df" by simp
  with t show "h' ! df = h ! df" by simp
  show "res = Inr r \<Longrightarrow> r \<noteq> df \<and> r < length h'"
    using assms by (auto simp: preserves_store_def)
qed

text \<open>
  Claim C10. \<open>clean_dataframe\<close> and the \<open>transform\<close> of every built-in transformer work on
  a copy. Whatever the store, the input reference and the parameters are, after the call
  (whether it returns or raises) every frame that existed before the call is unchanged,
  the caller's input among them, and a reference returned points to a frame allocated
  during the call, which is therefore not the input.
\<close>

theorem transforms_preserve_input:
  "preserves_store h (clean_dataframe M h df options) \<and>
   preserves_store h (scaling_transform L h df scaling) \<and>
   preserves_store h (binning_transform L h df binning) \<and>
   preserves_store h (math_transform L h df math) \<and>
   preserves_store h (date_format_transform T h df date_format) \<and>
   preserves_store h (date_extract_transform T h df date_extract) \<and>
   preserves_store h (date_difference_transform T h df date_difference) \<and>
   preserves_store h (text_case_transform T h df text_case) \<and>
   preserves_store h (pattern_extract_transform T h df pattern) \<and>
   preserves_store h (text_replace_transform T h df replace)"
  by (intro conjI clean_dataframe_preserves scaling_transform_preserves
      binning_transform_preserves math_transform_preserves date_format_transform_preserves
      date_extract_transform_preserves date_difference_transform_preserves
      text_case_transform_preserves pattern_extract_transform_preserves
      text_replace_transform_preserves)

theorem transforms_preserve_input_witness:
  "scaling_transform example_library [example_frame] 0 example_scaling_params
     = ([example_frame,
         \<lparr>nrows = 2, cols = [(''a'', [Num 6, Num 8]), (''b'', [Num 0, Num 2]),
                             (''a_scaled'', [Num 0, Num 1])]\<rparr>],
        Inr 1) \<and>
   preserves_store [example_frame]
     ([example_frame,
       \<lparr>nrows = 2, cols = [(''a'', [Num 6, Num 8]), (''b'', [Num 0, Num 2]),
                           (''a_scaled'', [Num 0, Num 1])]\<rparr>],
      Inr 1)"
proof -
  have e: "scaling_transform example_library [example_frame] 0 example_scaling_params
     = ([example_frame,
         \<lparr>nrows = 2, cols = [(''a'', [Num 6, Num 8]), (''b'', [Num 0, Num 2]),
                             (''a_scaled'', [Num 0, Num 1])]\<rparr>],
        Inr 1)"
    by (simp add: scaling_transform_def df_copy_def example_scaling_params_def example_frame_def
        in_columns_def columns_def truthy_def pd_to_numeric_def to_numeric_cell_def get_col_def
        auto_column_name_def scale_series_def present_def frame_set_col_def set_col_def
        float_cell_def Let_def)
  from transforms_preserve_input [of "[example_frame]" M 0 options example_library example_scaling_params]
  have "preserves_store [example_frame]
          (scaling_transform example_library [example_frame] 0 example_scaling_params)"
    by simp
  with e show ?thesis by simp
qed

section \<open>Properties of the calculated column\<close>

text \<open>
  What the repository's code decides about the evaluation of an expression: the names
  bound in the namespace are the columns whose name occurs in the expression text (as a
  substring, so a column can be bound without being used) and \<open>np\<close>; an exception of the
  evaluation is raised again with its message; the input frame is left alone. What the
  expression can reach through the values bound in the namespace is decided by the Python
  interpreter and is not part of this model.
\<close>

lemma dict_set_keys: "set (map fst (dict_set d k v)) = insert k (set (map fst d))"
  by (induction d k v rule: dict_set.induct) auto

lemma local_dict_keys:
  "set (map fst (local_dict t expression))
     = insert ''np'' {col \<in> set (columns t). py_in col expression}"
proof -
  let ?names = "union_index [] (filter (\<lambda>col. py_in col expression) (columns t))"
  have "set (map fst (local_dict t expression))
          = insert ''np'' (set (map fst (map (\<lambda>col. (col, ColumnValue (get_col t col))) ?names)))"
    unfolding local_dict_def by (rule dict_set_keys)
  also have "map fst (map (\<lambda>col. (col, ColumnValue (get_col t col))) ?names) = ?names"
    by (simp add: comp_def)
  also have "set ?names = {col \<in> set (columns t). py_in col expression}"
    by (simp add: union_index_set)
  finally show ?thesis .
qed

lemma create_calculated_column_failure:
  assumes "py_eval expression (local_dict (h ! df) expression) = Inl e"
  shows "create_calculated_column py_eval h df column_name expression
           = (h @ [h ! df], Inl (ValueError (''Error creating calculated column: '' @ exn_message e)))"
  using assms by (simp add: create_calculated_column_def df_copy_def)

lemma create_calculated_column_preserves:
  "preserves_store h (create_calculated_column py_eval h df column_name expression)"
  by (simp add: create_calculated_column_def store_simps split: sum.splits eval_result.splits)

lemma local_dict_unreferenced_column:
  "map fst (local_dict \<lparr>nrows = 1, cols = [(''a'', [Num 1]), (''bar'', [Num 2])]\<rparr> ''bar + 1'')
     = [''a'', ''bar'', ''np'']"
  by (simp add: local_dict_def columns_def get_col_def)

end
